theory Spec2Isabelle
  imports Main
begin

section \<open>Go values shared by the three services\<close>

text \<open>
  A Go \<open>error\<close> returned by the services is either built by \<open>errors.New\<close>, or an error
  of the provider's client wrapped by \<open>errors.Wrap\<close>/\<open>errors.Wrapf\<close> with a message. The
  provider's own errors are opaque to this code (type \<open>'e\<close>); the only thing the code asks
  of one is \<open>azure.ResourceNotFound\<close>, which is declared outside the three source files and
  is therefore a parameter (\<open>rnf\<close>) of every function that calls it. The nil error is
  \<open>None\<close>.
\<close>

datatype 'e error =
    ClientError 'e
  | New string
  | Wrap "'e error" string

text \<open>
  How a Go function ends: it returns its \<open>error\<close> result, or it panics (the only panic
  in these files is the dereference of a nil embedded properties pointer).
\<close>

datatype 'e outcome =
    Returns "'e error option"
  | Panics

text \<open>
  The remote provider is a state of an arbitrary type \<open>'c\<close> that every client call may
  read and change. The calls a service issues, and the conditions it sets on its scope,
  are recorded in order in \<open>trace\<close>. Logging (\<open>Info\<close>, \<open>klog\<close>) and the tracing span are
  left out: they have no influence on calls, conditions or results.
\<close>

record ('c, 'ev) world =
  cloud :: 'c
  trace :: "'ev list"

definition emit :: "'ev \<Rightarrow> 'c \<Rightarrow> ('c, 'ev) world \<Rightarrow> ('c, 'ev) world" where
  "emit ev c w = w\<lparr>cloud := c, trace := trace w @ [ev]\<rparr>"

text \<open>\<open>to.String\<close>: the string behind a pointer, the empty string for nil.\<close>

definition to_String :: "string option \<Rightarrow> string" where
  "to_String p = (case p of None \<Rightarrow> [] | Some s \<Rightarrow> s)"

text \<open>The values of \<open>compute.ProvisioningState\<close> the code compares with.\<close>

definition ProvisioningStateCreating :: string where
  "ProvisioningStateCreating = ''Creating''"

definition ProvisioningStateSucceeded :: string where
  "ProvisioningStateSucceeded = ''Succeeded''"

definition ProvisioningStateFailed :: string where
  "ProvisioningStateFailed = ''Failed''"

section \<open>Extensions: data\<close>

type_synonym settings = "(string \<times> string) list"

text \<open>
  \<open>compute.VirtualMachineExtension\<close> embeds a pointer to its properties; the fields the
  code reads or writes are kept.
\<close>

record VirtualMachineExtensionProperties =
  Publisher :: "string option"
  Type :: "string option"
  TypeHandlerVersion :: "string option"
  Settings :: "settings option"
  ProtectedSettings :: "settings option"
  ProvisioningState :: "string option"

record VirtualMachineExtension =
  Properties :: "VirtualMachineExtensionProperties option"
  Location :: "string option"

record VirtualMachineScaleSetExtensionProperties =
  ss_ProvisioningState :: "string option"

record VirtualMachineScaleSetExtension =
  ss_Properties :: "VirtualMachineScaleSetExtensionProperties option"

text \<open>
  \<open>azure.VMExtensionSpec\<close> and \<open>azure.VMSSExtensionSpec\<close> are declared outside the
  source files; the records have the fields the code reads (the scale-set service reads
  only the two names).
\<close>

record VMExtensionSpec =
  spec_Name :: string
  spec_VMName :: string
  spec_Publisher :: string
  spec_Version :: string
  spec_ProtectedSettings :: settings

record VMSSExtensionSpec =
  ss_Name :: string
  ss_ScaleSetName :: string

record VMExtensionScope =
  ResourceGroup :: string
  ScopeLocation :: string
  VMExtensionSpecs :: "VMExtensionSpec list"

record VMSSExtensionScope =
  ss_ResourceGroup :: string
  VMSSExtensionSpecs :: "VMSSExtensionSpec list"

text \<open>
  The condition type, reasons and severities are constants of the API packages; they are
  kept as names (\<open>NoReason\<close> and \<open>NoSeverity\<close> are the empty strings the code passes).
\<close>

datatype ConditionType = BootstrapSucceededCondition

datatype ConditionReason = NoReason | BootstrapInProgressReason | BootstrapFailedReason

datatype ConditionSeverity = NoSeverity | ConditionSeverityInfo | ConditionSeverityError

text \<open>
  What a pass of an extension service does to the outside: client calls (resource group,
  parent VM or scale set, extension name, payload) and \<open>SetCondition\<close> on the scope.
\<close>

datatype event =
    Get_call string string string
  | CreateOrUpdate_call string string string VirtualMachineExtension
  | SetCondition_call ConditionType ConditionReason ConditionSeverity bool

record ('c, 'e) client =
  Get :: "'c \<Rightarrow> string \<Rightarrow> string \<Rightarrow> string \<Rightarrow> ('e + VirtualMachineExtension) \<times> 'c"
  CreateOrUpdate ::
    "'c \<Rightarrow> string \<Rightarrow> string \<Rightarrow> string \<Rightarrow> VirtualMachineExtension \<Rightarrow> 'e option \<times> 'c"

record ('c, 'e) ss_client =
  ss_Get :: "'c \<Rightarrow> string \<Rightarrow> string \<Rightarrow> string \<Rightarrow> ('e + VirtualMachineScaleSetExtension) \<times> 'c"

section \<open>vmextensions\<close>

text \<open>
  \<open>to.String(existing.ProvisioningState)\<close>: \<open>None\<close> when the embedded properties
  pointer is nil, where Go panics.
\<close>

definition provisioning :: "VirtualMachineExtension \<Rightarrow> string option" where
  "provisioning existing =
     (case Properties existing of
        None \<Rightarrow> None
      | Some p \<Rightarrow> Some (to_String (ProvisioningState p)))"

text \<open>The payload of the create call (lines 79 to 88).\<close>

definition extension_payload :: "VMExtensionScope \<Rightarrow> VMExtensionSpec \<Rightarrow> VirtualMachineExtension" where
  "extension_payload sc spec =
     \<lparr>Properties = Some
        \<lparr>Publisher = Some (spec_Publisher spec),
         Type = Some (spec_Name spec),
         TypeHandlerVersion = Some (spec_Version spec),
         Settings = None,
         ProtectedSettings = Some (spec_ProtectedSettings spec),
         ProvisioningState = None\<rparr>,
      Location = Some (ScopeLocation sc)\<rparr>"

definition create_failed_msg :: "VMExtensionScope \<Rightarrow> VMExtensionSpec \<Rightarrow> string" where
  "create_failed_msg sc spec =
     ''failed to create VM extension '' @ spec_Name spec @ '' on VM '' @ spec_VMName spec
       @ '' in resource group '' @ ResourceGroup sc"

text \<open>
  The body of the loop for one spec. \<open>None\<close>: the loop goes on to the next spec;
  \<open>Some out\<close>: Reconcile ends with \<open>out\<close>. The \<open>switch\<close> has no default case, so a
  provisioning state other than the three named ones, and an error of \<open>Get\<close> that is not
  not-found, fall out of it and the loop goes on.
\<close>

definition vmextensions_body ::
  "('e \<Rightarrow> bool) \<Rightarrow> ('c, 'e) client \<Rightarrow> VMExtensionScope \<Rightarrow> ('c, event) world \<Rightarrow> VMExtensionSpec
     \<Rightarrow> 'e outcome option \<times> ('c, event) world" where
  "vmextensions_body rnf cl sc w spec =
     (case Get cl (cloud w) (ResourceGroup sc) (spec_VMName spec) (spec_Name spec) of
        (Inr existing, c1) \<Rightarrow>
          (let w1 = emit (Get_call (ResourceGroup sc) (spec_VMName spec) (spec_Name spec)) c1 w in
           case provisioning existing of
             None \<Rightarrow> (Some Panics, w1)
           | Some st \<Rightarrow>
               if st = ProvisioningStateCreating
                 then (Some (Returns (Some (New ''extension still provisioning''))), w1)
               else if st = ProvisioningStateSucceeded
                 then (None, w1)
               else if st = ProvisioningStateFailed
                 then (Some (Returns (Some (New ''extension state failed''))), w1)
               else (None, w1))
      | (Inl err, c1) \<Rightarrow>
          (let w1 = emit (Get_call (ResourceGroup sc) (spec_VMName spec) (spec_Name spec)) c1 w in
           if rnf err then
             (case CreateOrUpdate cl (cloud w1) (ResourceGroup sc) (spec_VMName spec)
                     (spec_Name spec) (extension_payload sc spec) of
                (r, c2) \<Rightarrow>
                  (let w2 = emit (CreateOrUpdate_call (ResourceGroup sc) (spec_VMName spec)
                                    (spec_Name spec) (extension_payload sc spec)) c2 w1 in
                   case r of
                     Some err2 \<Rightarrow>
                       (Some (Returns (Some (Wrap (ClientError err2) (create_failed_msg sc spec)))), w2)
                   | None \<Rightarrow> (None, w2)))
           else (None, w1)))"

fun vmextensions_loop ::
  "('e \<Rightarrow> bool) \<Rightarrow> ('c, 'e) client \<Rightarrow> VMExtensionScope \<Rightarrow> ('c, event) world \<Rightarrow> VMExtensionSpec list
     \<Rightarrow> 'e outcome \<times> ('c, event) world" where
  "vmextensions_loop rnf cl sc w [] = (Returns None, w)"
| "vmextensions_loop rnf cl sc w (spec # rest) =
     (case vmextensions_body rnf cl sc w spec of
        (Some out, w') \<Rightarrow> (out, w')
      | (None, w') \<Rightarrow> vmextensions_loop rnf cl sc w' rest)"

definition vmextensions_Reconcile ::
  "('e \<Rightarrow> bool) \<Rightarrow> ('c, 'e) client \<Rightarrow> VMExtensionScope \<Rightarrow> ('c, event) world
     \<Rightarrow> 'e outcome \<times> ('c, event) world" where
  "vmextensions_Reconcile rnf cl sc w = vmextensions_loop rnf cl sc w (VMExtensionSpecs sc)"

definition vmextensions_Delete ::
  "('c, 'e) client \<Rightarrow> VMExtensionScope \<Rightarrow> ('c, event) world \<Rightarrow> 'e outcome \<times> ('c, event) world" where
  "vmextensions_Delete cl sc w = (Returns None, w)"

section \<open>vmssextensions\<close>

definition ss_provisioning :: "VirtualMachineScaleSetExtension \<Rightarrow> string option" where
  "ss_provisioning existing =
     (case ss_Properties existing of
        None \<Rightarrow> None
      | Some p \<Rightarrow> Some (to_String (ss_ProvisioningState p)))"

definition get_failed_msg :: "VMSSExtensionSpec \<Rightarrow> string" where
  "get_failed_msg spec =
     ''failed to get vm extension '' @ ss_Name spec @ '' on scale set '' @ ss_ScaleSetName spec"

text \<open>
  The body of the loop for one spec. When \<open>Get\<close> reports not-found, nothing is done:
  the extensions are applied to the model as part of the scale set's own Reconcile.
\<close>

definition vmssextensions_body ::
  "('e \<Rightarrow> bool) \<Rightarrow> ('c, 'e) ss_client \<Rightarrow> VMSSExtensionScope \<Rightarrow> ('c, event) world \<Rightarrow> VMSSExtensionSpec
     \<Rightarrow> 'e outcome option \<times> ('c, event) world" where
  "vmssextensions_body rnf cl sc w spec =
     (case ss_Get cl (cloud w) (ss_ResourceGroup sc) (ss_ScaleSetName spec) (ss_Name spec) of
        (Inr existing, c1) \<Rightarrow>
          (let w1 = emit (Get_call (ss_ResourceGroup sc) (ss_ScaleSetName spec) (ss_Name spec)) c1 w in
           case ss_provisioning existing of
             None \<Rightarrow> (Some Panics, w1)
           | Some st \<Rightarrow>
               if st = ProvisioningStateSucceeded
                 then (None,
                       emit (SetCondition_call BootstrapSucceededCondition NoReason NoSeverity True)
                         (cloud w1) w1)
               else if st = ProvisioningStateCreating
                 then (Some (Returns (Some (New ''extension still provisioning''))),
                       emit (SetCondition_call BootstrapSucceededCondition BootstrapInProgressReason
                               ConditionSeverityInfo False) (cloud w1) w1)
               else if st = ProvisioningStateFailed
                 then (Some (Returns (Some (New ''extension state failed''))),
                       emit (SetCondition_call BootstrapSucceededCondition BootstrapFailedReason
                               ConditionSeverityError False) (cloud w1) w1)
               else (None, w1))
      | (Inl err, c1) \<Rightarrow>
          (let w1 = emit (Get_call (ss_ResourceGroup sc) (ss_ScaleSetName spec) (ss_Name spec)) c1 w in
           if \<not> rnf err
             then (Some (Returns (Some (Wrap (ClientError err) (get_failed_msg spec)))), w1)
           else (None, w1)))"

fun vmssextensions_loop ::
  "('e \<Rightarrow> bool) \<Rightarrow> ('c, 'e) ss_client \<Rightarrow> VMSSExtensionScope \<Rightarrow> ('c, event) world
     \<Rightarrow> VMSSExtensionSpec list \<Rightarrow> 'e outcome \<times> ('c, event) world" where
  "vmssextensions_loop rnf cl sc w [] = (Returns None, w)"
| "vmssextensions_loop rnf cl sc w (spec # rest) =
     (case vmssextensions_body rnf cl sc w spec of
        (Some out, w') \<Rightarrow> (out, w')
      | (None, w') \<Rightarrow> vmssextensions_loop rnf cl sc w' rest)"

definition vmssextensions_Reconcile ::
  "('e \<Rightarrow> bool) \<Rightarrow> ('c, 'e) ss_client \<Rightarrow> VMSSExtensionScope \<Rightarrow> ('c, event) world
     \<Rightarrow> 'e outcome \<times> ('c, event) world" where
  "vmssextensions_Reconcile rnf cl sc w = vmssextensions_loop rnf cl sc w (VMSSExtensionSpecs sc)"

definition vmssextensions_Delete ::
  "('c, 'e) ss_client \<Rightarrow> VMSSExtensionScope \<Rightarrow> ('c, event) world \<Rightarrow> 'e outcome \<times> ('c, event) world" where
  "vmssextensions_Delete cl sc w = (Returns None, w)"

section \<open>publicips\<close>

text \<open>
  \<open>strings.ToLower\<close> of the Go library, on a string of bytes. A string of ASCII bytes
  only is lowered byte by byte; any other string goes through the Unicode mapping of the
  library, which is the parameter \<open>unicode_lower\<close>.
\<close>

definition isASCII :: "char \<Rightarrow> bool" where
  "isASCII c = ((of_char c :: nat) < 128)"

definition isUpper :: "char \<Rightarrow> bool" where
  "isUpper c = (65 \<le> (of_char c :: nat) \<and> (of_char c :: nat) \<le> 90)"

definition lower_byte :: "char \<Rightarrow> char" where
  "lower_byte c = (if isUpper c then char_of ((of_char c :: nat) + 32) else c)"

definition ToLower :: "(string \<Rightarrow> string) \<Rightarrow> string \<Rightarrow> string" where
  "ToLower unicode_lower s = (if list_all isASCII s then map lower_byte s else unicode_lower s)"

datatype PublicIPAddressSkuName = PublicIPAddressSkuNameBasic | PublicIPAddressSkuNameStandard

datatype IPVersion = IPv4 | IPv6

datatype IPAllocationMethod = Dynamic | Static

record PublicIPAddressSku =
  sku_Name :: PublicIPAddressSkuName

record PublicIPAddressDNSSettings =
  DomainNameLabel :: "string option"
  Fqdn :: "string option"

record PublicIPAddressPropertiesFormat =
  PublicIPAddressVersion :: IPVersion
  PublicIPAllocationMethod :: IPAllocationMethod
  DNSSettings :: "PublicIPAddressDNSSettings option"

record PublicIPAddress =
  Sku :: "PublicIPAddressSku option"
  pip_Name :: "string option"
  pip_Location :: "string option"
  pip_Properties :: "PublicIPAddressPropertiesFormat option"

text \<open>The scope of the service: \<open>Network().APIServerIP\<close> with its name and DNS name.\<close>

record PublicIP =
  ip_Name :: string
  ip_DNSName :: string

record Network =
  APIServerIP :: PublicIP

record PublicIPScope =
  pip_ResourceGroup :: string
  pip_ScopeLocation :: string
  Network :: Network

datatype pip_event =
    PIP_CreateOrUpdate_call string string PublicIPAddress
  | PIP_Delete_call string string

record ('c, 'e) pip_client =
  pip_CreateOrUpdate :: "'c \<Rightarrow> string \<Rightarrow> string \<Rightarrow> PublicIPAddress \<Rightarrow> 'e option \<times> 'c"
  pip_Delete :: "'c \<Rightarrow> string \<Rightarrow> string \<Rightarrow> 'e option \<times> 'c"

text \<open>The payload of the create-or-update call (lines 39 to 51).\<close>

definition publicip_payload :: "(string \<Rightarrow> string) \<Rightarrow> PublicIPScope \<Rightarrow> PublicIPAddress" where
  "publicip_payload unicode_lower sc =
     (let ipName = ip_Name (APIServerIP (Network sc)) in
      \<lparr>Sku = Some \<lparr>sku_Name = PublicIPAddressSkuNameStandard\<rparr>,
       pip_Name = Some ipName,
       pip_Location = Some (pip_ScopeLocation sc),
       pip_Properties = Some
         \<lparr>PublicIPAddressVersion = IPv4,
          PublicIPAllocationMethod = Static,
          DNSSettings = Some
            \<lparr>DomainNameLabel = Some (ToLower unicode_lower ipName),
             Fqdn = Some (ip_DNSName (APIServerIP (Network sc)))\<rparr>\<rparr>\<rparr>)"

definition publicips_Reconcile ::
  "(string \<Rightarrow> string) \<Rightarrow> ('c, 'e) pip_client \<Rightarrow> PublicIPScope \<Rightarrow> ('c, pip_event) world
     \<Rightarrow> 'e outcome \<times> ('c, pip_event) world" where
  "publicips_Reconcile unicode_lower cl sc w =
     (let ipName = ip_Name (APIServerIP (Network sc)) in
      case pip_CreateOrUpdate cl (cloud w) (pip_ResourceGroup sc) ipName
             (publicip_payload unicode_lower sc) of
        (r, c1) \<Rightarrow>
          (let w1 = emit (PIP_CreateOrUpdate_call (pip_ResourceGroup sc) ipName
                            (publicip_payload unicode_lower sc)) c1 w in
           case r of
             Some err \<Rightarrow> (Returns (Some (Wrap (ClientError err) ''cannot create public IP'')), w1)
           | None \<Rightarrow> (Returns None, w1)))"

definition delete_failed_msg :: "PublicIPScope \<Rightarrow> string" where
  "delete_failed_msg sc =
     ''failed to delete public IP '' @ ip_Name (APIServerIP (Network sc))
       @ '' in resource group '' @ pip_ResourceGroup sc"

definition publicips_Delete ::
  "('e \<Rightarrow> bool) \<Rightarrow> ('c, 'e) pip_client \<Rightarrow> PublicIPScope \<Rightarrow> ('c, pip_event) world
     \<Rightarrow> 'e outcome \<times> ('c, pip_event) world" where
  "publicips_Delete rnf cl sc w =
     (let ipName = ip_Name (APIServerIP (Network sc)) in
      case pip_Delete cl (cloud w) (pip_ResourceGroup sc) ipName of
        (r, c1) \<Rightarrow>
          (let w1 = emit (PIP_Delete_call (pip_ResourceGroup sc) ipName) c1 w in
           case r of
             Some err \<Rightarrow>
               if rnf err then (Returns None, w1)
               else (Returns (Some (Wrap (ClientError err) (delete_failed_msg sc))), w1)
           | None \<Rightarrow> (Returns None, w1)))"

section \<open>Reading a trace\<close>

text \<open>The mutating calls of the extension clients, and the conditions set, in a trace.\<close>

fun is_mutation :: "event \<Rightarrow> bool" where
  "is_mutation (CreateOrUpdate_call rg parent name ext) = True"
| "is_mutation (Get_call rg parent name) = False"
| "is_mutation (SetCondition_call t r s b) = False"

fun is_condition :: "event \<Rightarrow> bool" where
  "is_condition (SetCondition_call t r s b) = True"
| "is_condition (Get_call rg parent name) = False"
| "is_condition (CreateOrUpdate_call rg parent name ext) = False"

fun is_get :: "event \<Rightarrow> bool" where
  "is_get (Get_call rg parent name) = True"
| "is_get (CreateOrUpdate_call rg parent name ext) = False"
| "is_get (SetCondition_call t r s b) = False"

definition mutations :: "event list \<Rightarrow> event list" where
  "mutations tr = filter is_mutation tr"

definition conditions :: "event list \<Rightarrow> event list" where
  "conditions tr = filter is_condition tr"

definition gets :: "event list \<Rightarrow> event list" where
  "gets tr = filter is_get tr"

section \<open>A small provider to run the services on\<close>

text \<open>
  Provider errors are HTTP status codes, not-found is 404. The extension found under a
  name is fixed by the name; the provider's state counts the mutating calls it served.
\<close>

definition http_not_found :: "nat \<Rightarrow> bool" where
  "http_not_found e = (e = 404)"

definition extension_in :: "string \<Rightarrow> VirtualMachineExtension" where
  "extension_in st =
     \<lparr>Properties = Some
        \<lparr>Publisher = None, Type = None, TypeHandlerVersion = None, Settings = None,
         ProtectedSettings = None, ProvisioningState = Some st\<rparr>,
      Location = None\<rparr>"

definition ss_extension_in :: "string \<Rightarrow> VirtualMachineScaleSetExtension" where
  "ss_extension_in st = \<lparr>ss_Properties = Some \<lparr>ss_ProvisioningState = Some st\<rparr>\<rparr>"

definition lookup_by_name :: "string \<Rightarrow> nat + string" where
  "lookup_by_name name =
     (if name = ''ok'' then Inr ''Succeeded''
      else if name = ''busy'' then Inr ''Creating''
      else if name = ''bad'' then Inr ''Failed''
      else if name = ''down'' then Inl 500
      else Inl 404)"

definition sample_client :: "(nat, nat) client" where
  "sample_client =
     \<lparr>Get = (\<lambda>c rg vm name. (map_sum id extension_in (lookup_by_name name), c)),
      CreateOrUpdate = (\<lambda>c rg vm name ext. (if name = ''deny'' then Some 403 else None, Suc c))\<rparr>"

definition sample_ss_client :: "(nat, nat) ss_client" where
  "sample_ss_client =
     \<lparr>ss_Get = (\<lambda>c rg vm name. (map_sum id ss_extension_in (lookup_by_name name), c))\<rparr>"

definition sample_pip_client :: "(nat, nat) pip_client" where
  "sample_pip_client =
     \<lparr>pip_CreateOrUpdate = (\<lambda>c rg name ip. (if name = ''deny'' then Some 403 else None, Suc c)),
      pip_Delete = (\<lambda>c rg name. (if name = ''gone'' then Some 404
                                  else if name = ''deny'' then Some 403 else None, Suc c))\<rparr>"

definition sample_spec :: "string \<Rightarrow> VMExtensionSpec" where
  "sample_spec name =
     \<lparr>spec_Name = name, spec_VMName = ''vm'', spec_Publisher = ''pub'', spec_Version = ''1.0'',
      spec_ProtectedSettings = []\<rparr>"

definition sample_scope :: "string list \<Rightarrow> VMExtensionScope" where
  "sample_scope names =
     \<lparr>ResourceGroup = ''rg'', ScopeLocation = ''loc'', VMExtensionSpecs = map sample_spec names\<rparr>"

definition sample_ss_spec :: "string \<Rightarrow> VMSSExtensionSpec" where
  "sample_ss_spec name = \<lparr>ss_Name = name, ss_ScaleSetName = ''vmss''\<rparr>"

definition sample_ss_scope :: "string list \<Rightarrow> VMSSExtensionScope" where
  "sample_ss_scope names =
     \<lparr>ss_ResourceGroup = ''rg'', VMSSExtensionSpecs = map sample_ss_spec names\<rparr>"

definition sample_pip_scope :: "string \<Rightarrow> PublicIPScope" where
  "sample_pip_scope name =
     \<lparr>pip_ResourceGroup = ''rg'', pip_ScopeLocation = ''loc'',
      Network = \<lparr>APIServerIP = \<lparr>ip_Name = name, ip_DNSName = ''dns''\<rparr>\<rparr>\<rparr>"

definition world0 :: "(nat, 'ev) world" where
  "world0 = \<lparr>cloud = 0, trace = []\<rparr>"

section \<open>Abbreviations for the calls of one spec\<close>

abbreviation vm_get ::
  "('c, 'e) client \<Rightarrow> VMExtensionScope \<Rightarrow> 'c \<Rightarrow> VMExtensionSpec \<Rightarrow> ('e + VirtualMachineExtension) \<times> 'c" where
  "vm_get cl sc c spec \<equiv> Get cl c (ResourceGroup sc) (spec_VMName spec) (spec_Name spec)"

abbreviation vm_get_call :: "VMExtensionScope \<Rightarrow> VMExtensionSpec \<Rightarrow> event" where
  "vm_get_call sc spec \<equiv> Get_call (ResourceGroup sc) (spec_VMName spec) (spec_Name spec)"

abbreviation vm_create ::
  "('c, 'e) client \<Rightarrow> VMExtensionScope \<Rightarrow> 'c \<Rightarrow> VMExtensionSpec \<Rightarrow> 'e option \<times> 'c" where
  "vm_create cl sc c spec \<equiv>
     CreateOrUpdate cl c (ResourceGroup sc) (spec_VMName spec) (spec_Name spec)
       (extension_payload sc spec)"

abbreviation vm_create_call :: "VMExtensionScope \<Rightarrow> VMExtensionSpec \<Rightarrow> event" where
  "vm_create_call sc spec \<equiv>
     CreateOrUpdate_call (ResourceGroup sc) (spec_VMName spec) (spec_Name spec)
       (extension_payload sc spec)"

abbreviation ss_get ::
  "('c, 'e) ss_client \<Rightarrow> VMSSExtensionScope \<Rightarrow> 'c \<Rightarrow> VMSSExtensionSpec
     \<Rightarrow> ('e + VirtualMachineScaleSetExtension) \<times> 'c" where
  "ss_get cl sc c spec \<equiv> ss_Get cl c (ss_ResourceGroup sc) (ss_ScaleSetName spec) (ss_Name spec)"

abbreviation ss_get_call :: "VMSSExtensionScope \<Rightarrow> VMSSExtensionSpec \<Rightarrow> event" where
  "ss_get_call sc spec \<equiv> Get_call (ss_ResourceGroup sc) (ss_ScaleSetName spec) (ss_Name spec)"

abbreviation set_condition :: "ConditionReason \<Rightarrow> ConditionSeverity \<Rightarrow> bool \<Rightarrow> event" where
  "set_condition r s b \<equiv> SetCondition_call BootstrapSucceededCondition r s b"

section \<open>Facts for running the definitions\<close>

lemmas sample_defs =
  sample_client_def sample_ss_client_def sample_pip_client_def sample_spec_def sample_scope_def
  sample_ss_spec_def sample_ss_scope_def sample_pip_scope_def world0_def lookup_by_name_def
  http_not_found_def extension_in_def ss_extension_in_def

lemmas state_defs =
  ProvisioningStateCreating_def ProvisioningStateSucceeded_def ProvisioningStateFailed_def

lemmas run_defs =
  vmextensions_Reconcile_def vmextensions_body_def vmssextensions_Reconcile_def
  vmssextensions_body_def provisioning_def ss_provisioning_def to_String_def emit_def
  extension_payload_def create_failed_msg_def get_failed_msg_def mutations_def conditions_def
  gets_def Let_def

section \<open>One spec of the VM service\<close>

lemma vmextensions_body_Inr:
  assumes "vm_get cl sc (cloud w) spec = (Inr existing, c1)"
    and "provisioning existing = Some st"
  shows "vmextensions_body rnf cl sc w spec =
     (if st = ProvisioningStateCreating
        then Some (Returns (Some (New ''extension still provisioning'')))
      else if st = ProvisioningStateFailed
        then Some (Returns (Some (New ''extension state failed'')))
      else None,
      emit (vm_get_call sc spec) c1 w)"
  using assms by (simp add: vmextensions_body_def state_defs Let_def)

lemma vmextensions_body_nil_properties:
  assumes "vm_get cl sc (cloud w) spec = (Inr existing, c1)"
    and "provisioning existing = None"
  shows "vmextensions_body rnf cl sc w spec = (Some Panics, emit (vm_get_call sc spec) c1 w)"
  using assms by (simp add: vmextensions_body_def)

lemma vmextensions_body_not_found:
  assumes "vm_get cl sc (cloud w) spec = (Inl err, c1)"
    and "rnf err"
    and "vm_create cl sc c1 spec = (r, c2)"
  shows "vmextensions_body rnf cl sc w spec =
     (case r of
        Some err2 \<Rightarrow> Some (Returns (Some (Wrap (ClientError err2) (create_failed_msg sc spec))))
      | None \<Rightarrow> None,
      emit (vm_create_call sc spec) c2 (emit (vm_get_call sc spec) c1 w))"
  using assms by (simp add: vmextensions_body_def emit_def split: option.splits)

lemma vmextensions_body_other_error:
  assumes "vm_get cl sc (cloud w) spec = (Inl err, c1)"
    and "\<not> rnf err"
  shows "vmextensions_body rnf cl sc w spec = (None, emit (vm_get_call sc spec) c1 w)"
  using assms by (simp add: vmextensions_body_def)

lemma vmextensions_body_never_nil:
  "vmextensions_body rnf cl sc w spec \<noteq> (Some (Returns None), w')"
  by (simp add: vmextensions_body_def Let_def split: prod.splits sum.splits option.splits)

lemma vmextensions_loop_append:
  "vmextensions_loop rnf cl sc w0 pre = (Returns None, w1) \<Longrightarrow>
   vmextensions_loop rnf cl sc w0 (pre @ rest) = vmextensions_loop rnf cl sc w1 rest"
proof (induction pre arbitrary: w0)
  case Nil
  then show ?case by simp
next
  case (Cons x xs)
  obtain r w' where b: "vmextensions_body rnf cl sc w0 x = (r, w')"
    by (cases "vmextensions_body rnf cl sc w0 x")
  show ?case
  proof (cases r)
    case None
    with b Cons show ?thesis by simp
  next
    case (Some out)
    with b Cons.prems have "out = Returns None" and "w' = w1" by simp_all
    with b Some vmextensions_body_never_nil [of rnf cl sc w0 x w1] show ?thesis by simp
  qed
qed

lemma vmextensions_Reconcile_at:
  assumes "VMExtensionSpecs sc = pre @ spec # post"
    and "vmextensions_loop rnf cl sc w0 pre = (Returns None, w1)"
  shows "vmextensions_Reconcile rnf cl sc w0 =
     (case vmextensions_body rnf cl sc w1 spec of
        (Some out, w') \<Rightarrow> (out, w')
      | (None, w') \<Rightarrow> vmextensions_loop rnf cl sc w' post)"
  using assms by (simp add: vmextensions_Reconcile_def vmextensions_loop_append)

lemma vmextensions_body_gets:
  "gets (trace (snd (vmextensions_body rnf cl sc w spec))) = gets (trace w) @ [vm_get_call sc spec]"
  by (simp add: vmextensions_body_def gets_def emit_def Let_def
      split: prod.splits sum.splits option.splits)

lemma vmextensions_loop_gets:
  "vmextensions_loop rnf cl sc w0 pre = (Returns None, w1) \<Longrightarrow>
   gets (trace w1) = gets (trace w0) @ map (vm_get_call sc) pre"
proof (induction pre arbitrary: w0)
  case Nil
  then show ?case by simp
next
  case (Cons x xs)
  obtain r w' where b: "vmextensions_body rnf cl sc w0 x = (r, w')"
    by (cases "vmextensions_body rnf cl sc w0 x")
  show ?case
  proof (cases r)
    case None
    with b Cons.prems have "vmextensions_loop rnf cl sc w' xs = (Returns None, w1)" by simp
    then have "gets (trace w1) = gets (trace w') @ map (vm_get_call sc) xs" by (rule Cons.IH)
    moreover from b vmextensions_body_gets [of rnf cl sc w0 x]
    have "gets (trace w') = gets (trace w0) @ [vm_get_call sc x]" by simp
    ultimately show ?thesis by simp
  next
    case (Some out)
    with b Cons.prems have "out = Returns None" and "w' = w1" by simp_all
    with b Some vmextensions_body_never_nil [of rnf cl sc w0 x w1] show ?thesis by simp
  qed
qed

text \<open>The VM service sets no condition.\<close>

lemma vmextensions_body_conditions:
  "conditions (trace (snd (vmextensions_body rnf cl sc w spec))) = conditions (trace w)"
  by (simp add: vmextensions_body_def conditions_def emit_def Let_def
      split: prod.splits sum.splits option.splits)

lemma vmextensions_loop_conditions:
  "conditions (trace (snd (vmextensions_loop rnf cl sc w specs))) = conditions (trace w)"
proof (induction specs arbitrary: w)
  case Nil
  then show ?case by simp
next
  case (Cons x xs)
  obtain r w' where b: "vmextensions_body rnf cl sc w x = (r, w')"
    by (cases "vmextensions_body rnf cl sc w x")
  with vmextensions_body_conditions [of rnf cl sc w x]
  have m: "conditions (trace w') = conditions (trace w)" by simp
  show ?case
  proof (cases r)
    case None
    with b m Cons.IH [of w'] show ?thesis by simp
  next
    case (Some out)
    with b m show ?thesis by simp
  qed
qed

lemma vmextensions_Reconcile_conditions:
  "conditions (trace (snd (vmextensions_Reconcile rnf cl sc w))) = conditions (trace w)"
  by (simp add: vmextensions_Reconcile_def vmextensions_loop_conditions)

section \<open>One spec of the scale-set service\<close>

lemma vmssextensions_body_Inr:
  assumes "ss_get cl sc (cloud w) spec = (Inr existing, c1)"
    and "ss_provisioning existing = Some st"
  shows "vmssextensions_body rnf cl sc w spec =
     (if st = ProvisioningStateSucceeded
        then (None, emit (set_condition NoReason NoSeverity True) c1 (emit (ss_get_call sc spec) c1 w))
      else if st = ProvisioningStateCreating
        then (Some (Returns (Some (New ''extension still provisioning''))),
              emit (set_condition BootstrapInProgressReason ConditionSeverityInfo False) c1
                (emit (ss_get_call sc spec) c1 w))
      else if st = ProvisioningStateFailed
        then (Some (Returns (Some (New ''extension state failed''))),
              emit (set_condition BootstrapFailedReason ConditionSeverityError False) c1
                (emit (ss_get_call sc spec) c1 w))
      else (None, emit (ss_get_call sc spec) c1 w))"
  using assms by (simp add: vmssextensions_body_def state_defs Let_def emit_def)

lemma vmssextensions_body_nil_properties:
  assumes "ss_get cl sc (cloud w) spec = (Inr existing, c1)"
    and "ss_provisioning existing = None"
  shows "vmssextensions_body rnf cl sc w spec = (Some Panics, emit (ss_get_call sc spec) c1 w)"
  using assms by (simp add: vmssextensions_body_def)

lemma vmssextensions_body_Inl:
  assumes "ss_get cl sc (cloud w) spec = (Inl err, c1)"
  shows "vmssextensions_body rnf cl sc w spec =
     (if rnf err then None
      else Some (Returns (Some (Wrap (ClientError err) (get_failed_msg spec)))),
      emit (ss_get_call sc spec) c1 w)"
  using assms by (simp add: vmssextensions_body_def)

lemma vmssextensions_body_never_nil:
  "vmssextensions_body rnf cl sc w spec \<noteq> (Some (Returns None), w')"
  by (simp add: vmssextensions_body_def Let_def split: prod.splits sum.splits option.splits)

lemma vmssextensions_loop_append:
  "vmssextensions_loop rnf cl sc w0 pre = (Returns None, w1) \<Longrightarrow>
   vmssextensions_loop rnf cl sc w0 (pre @ rest) = vmssextensions_loop rnf cl sc w1 rest"
proof (induction pre arbitrary: w0)
  case Nil
  then show ?case by simp
next
  case (Cons x xs)
  obtain r w' where b: "vmssextensions_body rnf cl sc w0 x = (r, w')"
    by (cases "vmssextensions_body rnf cl sc w0 x")
  show ?case
  proof (cases r)
    case None
    with b Cons show ?thesis by simp
  next
    case (Some out)
    with b Cons.prems have "out = Returns None" and "w' = w1" by simp_all
    with b Some vmssextensions_body_never_nil [of rnf cl sc w0 x w1] show ?thesis by simp
  qed
qed

lemma vmssextensions_Reconcile_at:
  assumes "VMSSExtensionSpecs sc = pre @ spec # post"
    and "vmssextensions_loop rnf cl sc w0 pre = (Returns None, w1)"
  shows "vmssextensions_Reconcile rnf cl sc w0 =
     (case vmssextensions_body rnf cl sc w1 spec of
        (Some out, w') \<Rightarrow> (out, w')
      | (None, w') \<Rightarrow> vmssextensions_loop rnf cl sc w' post)"
  using assms by (simp add: vmssextensions_Reconcile_def vmssextensions_loop_append)

lemma vmssextensions_body_gets:
  "gets (trace (snd (vmssextensions_body rnf cl sc w spec))) = gets (trace w) @ [ss_get_call sc spec]"
  by (simp add: vmssextensions_body_def gets_def emit_def Let_def
      split: prod.splits sum.splits option.splits)

lemma vmssextensions_loop_gets:
  "vmssextensions_loop rnf cl sc w0 pre = (Returns None, w1) \<Longrightarrow>
   gets (trace w1) = gets (trace w0) @ map (ss_get_call sc) pre"
proof (induction pre arbitrary: w0)
  case Nil
  then show ?case by simp
next
  case (Cons x xs)
  obtain r w' where b: "vmssextensions_body rnf cl sc w0 x = (r, w')"
    by (cases "vmssextensions_body rnf cl sc w0 x")
  show ?case
  proof (cases r)
    case None
    with b Cons.prems have "vmssextensions_loop rnf cl sc w' xs = (Returns None, w1)" by simp
    then have "gets (trace w1) = gets (trace w') @ map (ss_get_call sc) xs" by (rule Cons.IH)
    moreover from b vmssextensions_body_gets [of rnf cl sc w0 x]
    have "gets (trace w') = gets (trace w0) @ [ss_get_call sc x]" by simp
    ultimately show ?thesis by simp
  next
    case (Some out)
    with b Cons.prems have "out = Returns None" and "w' = w1" by simp_all
    with b Some vmssextensions_body_never_nil [of rnf cl sc w0 x w1] show ?thesis by simp
  qed
qed

text \<open>The scale-set service has no mutating call at all.\<close>

lemma vmssextensions_body_mutations:
  "mutations (trace (snd (vmssextensions_body rnf cl sc w spec))) = mutations (trace w)"
  by (simp add: vmssextensions_body_def mutations_def emit_def Let_def
      split: prod.splits sum.splits option.splits)

lemma vmssextensions_loop_mutations:
  "mutations (trace (snd (vmssextensions_loop rnf cl sc w specs))) = mutations (trace w)"
proof (induction specs arbitrary: w)
  case Nil
  then show ?case by simp
next
  case (Cons x xs)
  obtain r w' where b: "vmssextensions_body rnf cl sc w x = (r, w')"
    by (cases "vmssextensions_body rnf cl sc w x")
  with vmssextensions_body_mutations [of rnf cl sc w x]
  have m: "mutations (trace w') = mutations (trace w)" by simp
  show ?case
  proof (cases r)
    case None
    with b m Cons.IH [of w'] show ?thesis by simp
  next
    case (Some out)
    with b m show ?thesis by simp
  qed
qed

lemma vmssextensions_Reconcile_mutations:
  "mutations (trace (snd (vmssextensions_Reconcile rnf cl sc w))) = mutations (trace w)"
  by (simp add: vmssextensions_Reconcile_def vmssextensions_loop_mutations)

section \<open>What a pass reads of its scope, and what it adds to the trace\<close>

text \<open>
  The loop's body reads the resource group and the location of the scope, never the list
  of specs; each spec adds to the trace its \<open>Get\<close> and, in the VM service, at most one
  create call after it.
\<close>

lemma vmextensions_body_scope:
  "vmextensions_body rnf cl (sc\<lparr>VMExtensionSpecs := xs\<rparr>) w spec = vmextensions_body rnf cl sc w spec"
proof -
  have p: "extension_payload (sc\<lparr>VMExtensionSpecs := xs\<rparr>) spec = extension_payload sc spec"
    by (simp add: extension_payload_def)
  have m: "create_failed_msg (sc\<lparr>VMExtensionSpecs := xs\<rparr>) spec = create_failed_msg sc spec"
    by (simp add: create_failed_msg_def)
  have r: "ResourceGroup (sc\<lparr>VMExtensionSpecs := xs\<rparr>) = ResourceGroup sc"
    by simp
  show ?thesis
    unfolding vmextensions_body_def p m r ..
qed

lemma vmextensions_loop_scope:
  "vmextensions_loop rnf cl (sc\<lparr>VMExtensionSpecs := xs\<rparr>) w specs = vmextensions_loop rnf cl sc w specs"
  by (induction specs arbitrary: w)
    (simp_all add: vmextensions_body_scope split: prod.splits option.splits)

lemma vmextensions_body_trace_cases:
  "trace (snd (vmextensions_body rnf cl sc w spec)) = trace w @ [vm_get_call sc spec]
   \<or> trace (snd (vmextensions_body rnf cl sc w spec))
       = trace w @ [vm_get_call sc spec, vm_create_call sc spec]"
  by (simp add: vmextensions_body_def emit_def Let_def split: prod.splits sum.splits option.splits)

lemma vmextensions_body_trace:
  "\<exists>k. trace (snd (vmextensions_body rnf cl sc w spec)) =
     trace w @ (if k then [vm_get_call sc spec, vm_create_call sc spec] else [vm_get_call sc spec])"
proof -
  from vmextensions_body_trace_cases [of rnf cl sc w spec] show ?thesis
  proof
    assume "trace (snd (vmextensions_body rnf cl sc w spec)) = trace w @ [vm_get_call sc spec]"
    then show ?thesis by (intro exI [of _ False]) simp
  next
    assume "trace (snd (vmextensions_body rnf cl sc w spec))
       = trace w @ [vm_get_call sc spec, vm_create_call sc spec]"
    then show ?thesis by (intro exI [of _ True]) simp
  qed
qed

lemma vmextensions_loop_trace:
  "vmextensions_loop rnf cl sc w0 pre = (Returns None, w1) \<Longrightarrow>
   \<exists>ks. length ks = length pre
     \<and> trace w1 = trace w0 @ concat (map2
          (\<lambda>s k. if k then [vm_get_call sc s, vm_create_call sc s] else [vm_get_call sc s]) pre ks)"
proof (induction pre arbitrary: w0)
  case Nil
  then show ?case by simp
next
  case (Cons x xs)
  obtain r w' where b: "vmextensions_body rnf cl sc w0 x = (r, w')"
    by (cases "vmextensions_body rnf cl sc w0 x")
  show ?case
  proof (cases r)
    case None
    with b Cons.prems have "vmextensions_loop rnf cl sc w' xs = (Returns None, w1)" by simp
    from Cons.IH [OF this] obtain ks where ks: "length ks = length xs"
      "trace w1 = trace w' @ concat (map2
          (\<lambda>s k. if k then [vm_get_call sc s, vm_create_call sc s] else [vm_get_call sc s]) xs ks)"
      by blast
    from b vmextensions_body_trace [of rnf cl sc w0 x] obtain k where
      k: "trace w' = trace w0 @ (if k then [vm_get_call sc x, vm_create_call sc x] else [vm_get_call sc x])"
      by auto
    from ks k show ?thesis
      by (intro exI [of _ "k # ks"]) simp
  next
    case (Some out)
    with b Cons.prems have "out = Returns None" and "w' = w1" by simp_all
    with b Some vmextensions_body_never_nil [of rnf cl sc w0 x w1] show ?thesis by simp
  qed
qed

lemma vmssextensions_body_scope:
  "vmssextensions_body rnf cl (sc\<lparr>VMSSExtensionSpecs := xs\<rparr>) w spec
     = vmssextensions_body rnf cl sc w spec"
proof -
  have r: "ss_ResourceGroup (sc\<lparr>VMSSExtensionSpecs := xs\<rparr>) = ss_ResourceGroup sc"
    by simp
  show ?thesis
    unfolding vmssextensions_body_def r ..
qed

lemma vmssextensions_loop_scope:
  "vmssextensions_loop rnf cl (sc\<lparr>VMSSExtensionSpecs := xs\<rparr>) w specs
     = vmssextensions_loop rnf cl sc w specs"
  by (induction specs arbitrary: w)
    (simp_all add: vmssextensions_body_scope split: prod.splits option.splits)

lemma vmssextensions_body_calls:
  "filter (\<lambda>ev. \<not> is_condition ev) (trace (snd (vmssextensions_body rnf cl sc w spec)))
     = filter (\<lambda>ev. \<not> is_condition ev) (trace w) @ [ss_get_call sc spec]"
  by (simp add: vmssextensions_body_def emit_def Let_def
      split: prod.splits sum.splits option.splits)

lemma vmssextensions_loop_calls:
  "vmssextensions_loop rnf cl sc w0 pre = (Returns None, w1) \<Longrightarrow>
   filter (\<lambda>ev. \<not> is_condition ev) (trace w1)
     = filter (\<lambda>ev. \<not> is_condition ev) (trace w0) @ map (ss_get_call sc) pre"
proof (induction pre arbitrary: w0)
  case Nil
  then show ?case by simp
next
  case (Cons x xs)
  obtain r w' where b: "vmssextensions_body rnf cl sc w0 x = (r, w')"
    by (cases "vmssextensions_body rnf cl sc w0 x")
  show ?case
  proof (cases r)
    case None
    with b Cons.prems have "vmssextensions_loop rnf cl sc w' xs = (Returns None, w1)" by simp
    then have "filter (\<lambda>ev. \<not> is_condition ev) (trace w1)
        = filter (\<lambda>ev. \<not> is_condition ev) (trace w') @ map (ss_get_call sc) xs"
      by (rule Cons.IH)
    moreover from b vmssextensions_body_calls [of rnf cl sc w0 x]
    have "filter (\<lambda>ev. \<not> is_condition ev) (trace w')
        = filter (\<lambda>ev. \<not> is_condition ev) (trace w0) @ [ss_get_call sc x]" by simp
    ultimately show ?thesis by simp
  next
    case (Some out)
    with b Cons.prems have "out = Returns None" and "w' = w1" by simp_all
    with b Some vmssextensions_body_never_nil [of rnf cl sc w0 x w1] show ?thesis by simp
  qed
qed

section \<open>The extension services, state by state\<close>

text \<open>
  In the theorems of this section a spec \<open>spec\<close> of the scope's list is reached by the
  pass when the loop runs through the specs before it (\<open>pre\<close>) without ending the pass,
  which leaves the world \<open>w1\<close>; what \<open>Get\<close> answers for \<open>spec\<close> in \<open>w1\<close> is the
  observed state. The plain names (\<open>sc\<close>, \<open>cl\<close>, \<open>spec\<close>, \<open>w0\<close>, \<open>w1\<close>, \<open>c1\<close>)
  belong to the VM service, the names with an \<open>s\<close>, and \<open>v0\<close>, \<open>v1\<close>, \<open>d1\<close>, to
  the scale-set service.
\<close>

subsection \<open>An error of \<open>Get\<close> other than not-found\<close>

text \<open>
  The scale-set service ends the pass with the wrapped error. The VM service does not:
  no case of its \<open>switch\<close> takes such an error, and the loop goes on to the next spec.
\<close>

lemma vmssextensions_get_error_fatal:
  assumes "VMSSExtensionSpecs ssc = spre @ sspec # spost"
    and "vmssextensions_loop rnf scl ssc v0 spre = (Returns None, v1)"
    and "ss_get scl ssc (cloud v1) sspec = (Inl err, d1)"
    and "\<not> rnf err"
  shows "vmssextensions_Reconcile rnf scl ssc v0 =
     (Returns (Some (Wrap (ClientError err) (get_failed_msg sspec))),
      emit (ss_get_call ssc sspec) d1 v1)"
  using assms by (simp add: vmssextensions_Reconcile_at vmssextensions_body_Inl)

lemma vmextensions_get_error_ignored:
  assumes "VMExtensionSpecs sc = pre @ spec # post"
    and "vmextensions_loop rnf cl sc w0 pre = (Returns None, w1)"
    and "vm_get cl sc (cloud w1) spec = (Inl err, c1)"
    and "\<not> rnf err"
  shows "vmextensions_Reconcile rnf cl sc w0 =
     vmextensions_loop rnf cl sc (emit (vm_get_call sc spec) c1 w1) post"
  using assms by (simp add: vmextensions_Reconcile_at vmextensions_body_other_error)

text \<open>
  C1. An error of \<open>Get\<close> other than not-found should end the pass with an error. A pass
  of the VM service over one spec whose \<open>Get\<close> fails with status 500 returns nil, with
  the \<open>Get\<close> as its only call; the same pass of the scale-set service returns the wrapped
  error.
\<close>

theorem vmextensions_swallows_get_error:
  "vm_get sample_client (sample_scope [''down'']) (cloud (world0 :: (nat, event) world))
       (sample_spec ''down'') = (Inl 500, 0)
   \<and> \<not> http_not_found 500
   \<and> vmextensions_Reconcile http_not_found sample_client (sample_scope [''down'']) world0
     = (Returns None, \<lparr>cloud = 0, trace = [Get_call ''rg'' ''vm'' ''down'']\<rparr>)
   \<and> vmssextensions_Reconcile http_not_found sample_ss_client (sample_ss_scope [''down'']) world0
     = (Returns (Some (Wrap (ClientError 500) ''failed to get vm extension down on scale set vmss'')),
        \<lparr>cloud = 0, trace = [Get_call ''rg'' ''vmss'' ''down'']\<rparr>)"
  by (simp add: sample_defs run_defs)

subsection \<open>Succeeded\<close>

text \<open>
  C2. At a spec observed in the succeeded state, the scale-set service sets the bootstrap
  condition to true, the VM service (whose scope has no condition setter) sets no
  condition; neither issues a mutating call for the spec, and both go on with the specs
  after it, so the spec is no cause of an error.
\<close>

theorem succeeded_proceeds:
  "(VMSSExtensionSpecs ssc = spre @ sspec # spost \<longrightarrow>
    vmssextensions_loop rnf scl ssc v0 spre = (Returns None, v1) \<longrightarrow>
    ss_get scl ssc (cloud v1) sspec = (Inr sexisting, d1) \<longrightarrow>
    ss_provisioning sexisting = Some ProvisioningStateSucceeded \<longrightarrow>
    (let V = emit (set_condition NoReason NoSeverity True) d1 (emit (ss_get_call ssc sspec) d1 v1) in
     vmssextensions_Reconcile rnf scl ssc v0 = vmssextensions_loop rnf scl ssc V spost
     \<and> trace V = trace v1 @ [ss_get_call ssc sspec, set_condition NoReason NoSeverity True]
     \<and> mutations (trace V) = mutations (trace v1)))
   \<and>
   (VMExtensionSpecs sc = pre @ spec # post \<longrightarrow>
    vmextensions_loop rnf cl sc w0 pre = (Returns None, w1) \<longrightarrow>
    vm_get cl sc (cloud w1) spec = (Inr existing, c1) \<longrightarrow>
    provisioning existing = Some ProvisioningStateSucceeded \<longrightarrow>
    (let W = emit (vm_get_call sc spec) c1 w1 in
     vmextensions_Reconcile rnf cl sc w0 = vmextensions_loop rnf cl sc W post
     \<and> trace W = trace w1 @ [vm_get_call sc spec]
     \<and> mutations (trace W) = mutations (trace w1)
     \<and> conditions (trace W) = conditions (trace w1)))"
proof (intro conjI impI)
  assume "VMSSExtensionSpecs ssc = spre @ sspec # spost"
    and "vmssextensions_loop rnf scl ssc v0 spre = (Returns None, v1)"
    and "ss_get scl ssc (cloud v1) sspec = (Inr sexisting, d1)"
    and "ss_provisioning sexisting = Some ProvisioningStateSucceeded"
  then show "let V = emit (set_condition NoReason NoSeverity True) d1 (emit (ss_get_call ssc sspec) d1 v1) in
     vmssextensions_Reconcile rnf scl ssc v0 = vmssextensions_loop rnf scl ssc V spost
     \<and> trace V = trace v1 @ [ss_get_call ssc sspec, set_condition NoReason NoSeverity True]
     \<and> mutations (trace V) = mutations (trace v1)"
    by (simp add: vmssextensions_Reconcile_at vmssextensions_body_Inr emit_def mutations_def)
next
  assume "VMExtensionSpecs sc = pre @ spec # post"
    and "vmextensions_loop rnf cl sc w0 pre = (Returns None, w1)"
    and "vm_get cl sc (cloud w1) spec = (Inr existing, c1)"
    and "provisioning existing = Some ProvisioningStateSucceeded"
  then show "let W = emit (vm_get_call sc spec) c1 w1 in
     vmextensions_Reconcile rnf cl sc w0 = vmextensions_loop rnf cl sc W post
     \<and> trace W = trace w1 @ [vm_get_call sc spec]
     \<and> mutations (trace W) = mutations (trace w1)
     \<and> conditions (trace W) = conditions (trace w1)"
    by (simp add: vmextensions_Reconcile_at vmextensions_body_Inr emit_def mutations_def
        conditions_def state_defs)
qed

text \<open>The theorem above at a pass over one succeeded extension, in each service.\<close>

theorem succeeded_proceeds_witness:
  "ss_get sample_ss_client (sample_ss_scope [''ok'']) 0 (sample_ss_spec ''ok'')
     = (Inr (ss_extension_in ''Succeeded''), 0)
   \<and> ss_provisioning (ss_extension_in ''Succeeded'') = Some ProvisioningStateSucceeded
   \<and> vmssextensions_Reconcile http_not_found sample_ss_client (sample_ss_scope [''ok'']) world0
     = (Returns None,
        \<lparr>cloud = 0, trace = [Get_call ''rg'' ''vmss'' ''ok'', set_condition NoReason NoSeverity True]\<rparr>)
   \<and> vm_get sample_client (sample_scope [''ok'']) 0 (sample_spec ''ok'')
     = (Inr (extension_in ''Succeeded''), 0)
   \<and> provisioning (extension_in ''Succeeded'') = Some ProvisioningStateSucceeded
   \<and> vmextensions_Reconcile http_not_found sample_client (sample_scope [''ok'']) world0
     = (Returns None, \<lparr>cloud = 0, trace = [Get_call ''rg'' ''vm'' ''ok'']\<rparr>)"
proof -
  let ?sc = "sample_scope [''ok'']"
  let ?ssc = "sample_ss_scope [''ok'']"
  have a1: "VMExtensionSpecs ?sc = [] @ sample_spec ''ok'' # []"
    by (simp add: sample_defs)
  have a2: "vmextensions_loop http_not_found sample_client ?sc world0 [] = (Returns None, world0)"
    by simp
  have a3: "vm_get sample_client ?sc (cloud (world0 :: (nat, event) world)) (sample_spec ''ok'')
              = (Inr (extension_in ''Succeeded''), 0)"
    by (simp add: sample_defs)
  have a4: "provisioning (extension_in ''Succeeded'') = Some ProvisioningStateSucceeded"
    by (simp add: sample_defs run_defs state_defs)
  have b1: "VMSSExtensionSpecs ?ssc = [] @ sample_ss_spec ''ok'' # []"
    by (simp add: sample_defs)
  have b2: "vmssextensions_loop http_not_found sample_ss_client ?ssc world0 []
              = (Returns None, world0)"
    by simp
  have b3: "ss_get sample_ss_client ?ssc (cloud (world0 :: (nat, event) world)) (sample_ss_spec ''ok'')
              = (Inr (ss_extension_in ''Succeeded''), 0)"
    by (simp add: sample_defs)
  have b4: "ss_provisioning (ss_extension_in ''Succeeded'') = Some ProvisioningStateSucceeded"
    by (simp add: sample_defs run_defs state_defs)
  note ss = succeeded_proceeds [THEN conjunct1, rule_format, OF b1 b2 b3 b4]
  note vm = succeeded_proceeds [THEN conjunct2, rule_format, OF a1 a2 a3 a4]
  from vm ss a3 a4 b3 b4 show ?thesis
    by (simp add: Let_def emit_def world0_def sample_spec_def sample_ss_spec_def sample_scope_def
        sample_ss_scope_def)
qed

text \<open>
  C2 as it is written asks the VM service too for the condition: a pass of the VM service
  over one succeeded extension sets none.
\<close>

theorem succeeded_condition_counterexample:
  "vm_get sample_client (sample_scope [''ok'']) (cloud (world0 :: (nat, event) world))
       (sample_spec ''ok'') = (Inr (extension_in ''Succeeded''), 0)
   \<and> provisioning (extension_in ''Succeeded'') = Some ProvisioningStateSucceeded
   \<and> conditions (trace (snd (vmextensions_Reconcile http_not_found sample_client
          (sample_scope [''ok'']) world0))) = []"
  by (simp add: sample_defs run_defs state_defs)

subsection \<open>Failed\<close>

text \<open>
  C3. At a spec observed in the failed state, both services end the pass with the error
  "extension state failed"; the scale-set service first sets the bootstrap condition to
  false with the failed reason and severity error, the VM service sets no condition.
\<close>

theorem failed_ends_pass:
  "(VMSSExtensionSpecs ssc = spre @ sspec # spost \<longrightarrow>
    vmssextensions_loop rnf scl ssc v0 spre = (Returns None, v1) \<longrightarrow>
    ss_get scl ssc (cloud v1) sspec = (Inr sexisting, d1) \<longrightarrow>
    ss_provisioning sexisting = Some ProvisioningStateFailed \<longrightarrow>
    (let V = emit (set_condition BootstrapFailedReason ConditionSeverityError False) d1
               (emit (ss_get_call ssc sspec) d1 v1) in
     vmssextensions_Reconcile rnf scl ssc v0 = (Returns (Some (New ''extension state failed'')), V)
     \<and> trace V = trace v1 @ [ss_get_call ssc sspec,
                               set_condition BootstrapFailedReason ConditionSeverityError False]))
   \<and>
   (VMExtensionSpecs sc = pre @ spec # post \<longrightarrow>
    vmextensions_loop rnf cl sc w0 pre = (Returns None, w1) \<longrightarrow>
    vm_get cl sc (cloud w1) spec = (Inr existing, c1) \<longrightarrow>
    provisioning existing = Some ProvisioningStateFailed \<longrightarrow>
    (let W = emit (vm_get_call sc spec) c1 w1 in
     vmextensions_Reconcile rnf cl sc w0 = (Returns (Some (New ''extension state failed'')), W)
     \<and> trace W = trace w1 @ [vm_get_call sc spec]
     \<and> conditions (trace W) = conditions (trace w1)))"
proof (intro conjI impI)
  assume "VMSSExtensionSpecs ssc = spre @ sspec # spost"
    and "vmssextensions_loop rnf scl ssc v0 spre = (Returns None, v1)"
    and "ss_get scl ssc (cloud v1) sspec = (Inr sexisting, d1)"
    and "ss_provisioning sexisting = Some ProvisioningStateFailed"
  then show "let V = emit (set_condition BootstrapFailedReason ConditionSeverityError False) d1
               (emit (ss_get_call ssc sspec) d1 v1) in
     vmssextensions_Reconcile rnf scl ssc v0 = (Returns (Some (New ''extension state failed'')), V)
     \<and> trace V = trace v1 @ [ss_get_call ssc sspec,
                               set_condition BootstrapFailedReason ConditionSeverityError False]"
    by (simp add: vmssextensions_Reconcile_at vmssextensions_body_Inr emit_def state_defs)
next
  assume "VMExtensionSpecs sc = pre @ spec # post"
    and "vmextensions_loop rnf cl sc w0 pre = (Returns None, w1)"
    and "vm_get cl sc (cloud w1) spec = (Inr existing, c1)"
    and "provisioning existing = Some ProvisioningStateFailed"
  then show "let W = emit (vm_get_call sc spec) c1 w1 in
     vmextensions_Reconcile rnf cl sc w0 = (Returns (Some (New ''extension state failed'')), W)
     \<and> trace W = trace w1 @ [vm_get_call sc spec]
     \<and> conditions (trace W) = conditions (trace w1)"
    by (simp add: vmextensions_Reconcile_at vmextensions_body_Inr emit_def conditions_def state_defs)
qed

text \<open>The theorem above at a pass that meets a failed extension first.\<close>

theorem failed_ends_pass_witness:
  "ss_get sample_ss_client (sample_ss_scope [''bad'', ''new'']) 0 (sample_ss_spec ''bad'')
     = (Inr (ss_extension_in ''Failed''), 0)
   \<and> ss_provisioning (ss_extension_in ''Failed'') = Some ProvisioningStateFailed
   \<and> vmssextensions_Reconcile http_not_found sample_ss_client (sample_ss_scope [''bad'', ''new'']) world0
     = (Returns (Some (New ''extension state failed'')),
        \<lparr>cloud = 0,
         trace = [Get_call ''rg'' ''vmss'' ''bad'',
                  set_condition BootstrapFailedReason ConditionSeverityError False]\<rparr>)
   \<and> vm_get sample_client (sample_scope [''bad'', ''new'']) 0 (sample_spec ''bad'')
     = (Inr (extension_in ''Failed''), 0)
   \<and> provisioning (extension_in ''Failed'') = Some ProvisioningStateFailed
   \<and> vmextensions_Reconcile http_not_found sample_client (sample_scope [''bad'', ''new'']) world0
     = (Returns (Some (New ''extension state failed'')),
        \<lparr>cloud = 0, trace = [Get_call ''rg'' ''vm'' ''bad'']\<rparr>)"
proof -
  let ?sc = "sample_scope [''bad'', ''new'']"
  let ?ssc = "sample_ss_scope [''bad'', ''new'']"
  have a1: "VMExtensionSpecs ?sc = [] @ sample_spec ''bad'' # [sample_spec ''new'']"
    by (simp add: sample_defs)
  have a2: "vmextensions_loop http_not_found sample_client ?sc world0 [] = (Returns None, world0)"
    by simp
  have a3: "vm_get sample_client ?sc (cloud (world0 :: (nat, event) world)) (sample_spec ''bad'')
              = (Inr (extension_in ''Failed''), 0)"
    by (simp add: sample_defs)
  have a4: "provisioning (extension_in ''Failed'') = Some ProvisioningStateFailed"
    by (simp add: sample_defs run_defs state_defs)
  have b1: "VMSSExtensionSpecs ?ssc = [] @ sample_ss_spec ''bad'' # [sample_ss_spec ''new'']"
    by (simp add: sample_defs)
  have b2: "vmssextensions_loop http_not_found sample_ss_client ?ssc world0 []
              = (Returns None, world0)"
    by simp
  have b3: "ss_get sample_ss_client ?ssc (cloud (world0 :: (nat, event) world)) (sample_ss_spec ''bad'')
              = (Inr (ss_extension_in ''Failed''), 0)"
    by (simp add: sample_defs)
  have b4: "ss_provisioning (ss_extension_in ''Failed'') = Some ProvisioningStateFailed"
    by (simp add: sample_defs run_defs state_defs)
  note ss = failed_ends_pass [THEN conjunct1, rule_format, OF b1 b2 b3 b4]
  note vm = failed_ends_pass [THEN conjunct2, rule_format, OF a1 a2 a3 a4]
  from vm ss a3 a4 b3 b4 show ?thesis
    by (simp add: Let_def emit_def world0_def sample_spec_def sample_ss_spec_def sample_scope_def
        sample_ss_scope_def)
qed

text \<open>
  C3 as it is written asks the VM service too for the condition: a pass of the VM service
  over one failed extension sets none.
\<close>

theorem failed_condition_counterexample:
  "vm_get sample_client (sample_scope [''bad'']) (cloud (world0 :: (nat, event) world))
       (sample_spec ''bad'') = (Inr (extension_in ''Failed''), 0)
   \<and> provisioning (extension_in ''Failed'') = Some ProvisioningStateFailed
   \<and> conditions (trace (snd (vmextensions_Reconcile http_not_found sample_client
          (sample_scope [''bad'']) world0))) = []"
  by (simp add: sample_defs run_defs state_defs)

subsection \<open>Creating\<close>

text \<open>
  C4. A spec observed in the creating state ends the pass with the error
  "extension still provisioning", in both services, and no create-or-update call is
  issued for it: the VM service adds only its \<open>Get\<close> to the trace, the scale-set service
  its \<open>Get\<close> and the in-progress condition. (Both services return a plain error; that the
  pass is tried again is the caller's doing.)
\<close>

theorem creating_still_provisioning:
  "(VMExtensionSpecs sc = pre @ spec # post \<longrightarrow>
    vmextensions_loop rnf cl sc w0 pre = (Returns None, w1) \<longrightarrow>
    vm_get cl sc (cloud w1) spec = (Inr existing, c1) \<longrightarrow>
    provisioning existing = Some ProvisioningStateCreating \<longrightarrow>
    (let W = emit (vm_get_call sc spec) c1 w1 in
     vmextensions_Reconcile rnf cl sc w0 = (Returns (Some (New ''extension still provisioning'')), W)
     \<and> mutations (trace W) = mutations (trace w1)))
   \<and>
   (VMSSExtensionSpecs ssc = spre @ sspec # spost \<longrightarrow>
    vmssextensions_loop rnf scl ssc v0 spre = (Returns None, v1) \<longrightarrow>
    ss_get scl ssc (cloud v1) sspec = (Inr sexisting, d1) \<longrightarrow>
    ss_provisioning sexisting = Some ProvisioningStateCreating \<longrightarrow>
    (let V = emit (set_condition BootstrapInProgressReason ConditionSeverityInfo False) d1
               (emit (ss_get_call ssc sspec) d1 v1) in
     vmssextensions_Reconcile rnf scl ssc v0 = (Returns (Some (New ''extension still provisioning'')), V)
     \<and> mutations (trace V) = mutations (trace v1)))"
proof (intro conjI impI)
  assume "VMExtensionSpecs sc = pre @ spec # post"
    and "vmextensions_loop rnf cl sc w0 pre = (Returns None, w1)"
    and "vm_get cl sc (cloud w1) spec = (Inr existing, c1)"
    and "provisioning existing = Some ProvisioningStateCreating"
  then show "let W = emit (vm_get_call sc spec) c1 w1 in
     vmextensions_Reconcile rnf cl sc w0 = (Returns (Some (New ''extension still provisioning'')), W)
     \<and> mutations (trace W) = mutations (trace w1)"
    by (simp add: vmextensions_Reconcile_at vmextensions_body_Inr emit_def mutations_def)
next
  assume "VMSSExtensionSpecs ssc = spre @ sspec # spost"
    and "vmssextensions_loop rnf scl ssc v0 spre = (Returns None, v1)"
    and "ss_get scl ssc (cloud v1) sspec = (Inr sexisting, d1)"
    and "ss_provisioning sexisting = Some ProvisioningStateCreating"
  then show "let V = emit (set_condition BootstrapInProgressReason ConditionSeverityInfo False) d1
               (emit (ss_get_call ssc sspec) d1 v1) in
     vmssextensions_Reconcile rnf scl ssc v0 = (Returns (Some (New ''extension still provisioning'')), V)
     \<and> mutations (trace V) = mutations (trace v1)"
    by (simp add: vmssextensions_Reconcile_at vmssextensions_body_Inr emit_def mutations_def state_defs)
qed

text \<open>The theorem above at a pass that meets a succeeded, then a creating extension.\<close>

theorem creating_still_provisioning_witness:
  "vmextensions_loop http_not_found sample_client (sample_scope [''ok'', ''busy'', ''new'']) world0
      [sample_spec ''ok'']
     = (Returns None, \<lparr>cloud = 0, trace = [Get_call ''rg'' ''vm'' ''ok'']\<rparr>)
   \<and> vm_get sample_client (sample_scope [''ok'', ''busy'', ''new'']) 0 (sample_spec ''busy'')
     = (Inr (extension_in ''Creating''), 0)
   \<and> provisioning (extension_in ''Creating'') = Some ProvisioningStateCreating
   \<and> vmextensions_Reconcile http_not_found sample_client (sample_scope [''ok'', ''busy'', ''new'']) world0
     = (Returns (Some (New ''extension still provisioning'')),
        \<lparr>cloud = 0, trace = [Get_call ''rg'' ''vm'' ''ok'', Get_call ''rg'' ''vm'' ''busy'']\<rparr>)
   \<and> vmssextensions_loop http_not_found sample_ss_client (sample_ss_scope [''ok'', ''busy'', ''new''])
      world0 [sample_ss_spec ''ok'']
     = (Returns None,
        \<lparr>cloud = 0, trace = [Get_call ''rg'' ''vmss'' ''ok'', set_condition NoReason NoSeverity True]\<rparr>)
   \<and> ss_get sample_ss_client (sample_ss_scope [''ok'', ''busy'', ''new'']) 0 (sample_ss_spec ''busy'')
     = (Inr (ss_extension_in ''Creating''), 0)
   \<and> ss_provisioning (ss_extension_in ''Creating'') = Some ProvisioningStateCreating
   \<and> vmssextensions_Reconcile http_not_found sample_ss_client
        (sample_ss_scope [''ok'', ''busy'', ''new'']) world0
     = (Returns (Some (New ''extension still provisioning'')),
        \<lparr>cloud = 0,
         trace = [Get_call ''rg'' ''vmss'' ''ok'', set_condition NoReason NoSeverity True,
                  Get_call ''rg'' ''vmss'' ''busy'',
                  set_condition BootstrapInProgressReason ConditionSeverityInfo False]\<rparr>)"
proof -
  let ?sc = "sample_scope [''ok'', ''busy'', ''new'']"
  let ?ssc = "sample_ss_scope [''ok'', ''busy'', ''new'']"
  let ?w1 = "\<lparr>cloud = 0::nat, trace = [Get_call ''rg'' ''vm'' ''ok'']\<rparr>"
  let ?v1 = "\<lparr>cloud = 0::nat,
              trace = [Get_call ''rg'' ''vmss'' ''ok'', set_condition NoReason NoSeverity True]\<rparr>"
  have a1: "VMExtensionSpecs ?sc = [sample_spec ''ok''] @ sample_spec ''busy'' # [sample_spec ''new'']"
    by (simp add: sample_defs)
  have a2: "vmextensions_loop http_not_found sample_client ?sc world0 [sample_spec ''ok'']
              = (Returns None, ?w1)"
    by (simp add: sample_defs run_defs state_defs)
  have a3: "vm_get sample_client ?sc (cloud ?w1) (sample_spec ''busy'')
              = (Inr (extension_in ''Creating''), 0)"
    by (simp add: sample_defs)
  have a4: "provisioning (extension_in ''Creating'') = Some ProvisioningStateCreating"
    by (simp add: sample_defs run_defs state_defs)
  have b1: "VMSSExtensionSpecs ?ssc
              = [sample_ss_spec ''ok''] @ sample_ss_spec ''busy'' # [sample_ss_spec ''new'']"
    by (simp add: sample_defs)
  have b2: "vmssextensions_loop http_not_found sample_ss_client ?ssc world0 [sample_ss_spec ''ok'']
              = (Returns None, ?v1)"
    by (simp add: sample_defs run_defs state_defs)
  have b3: "ss_get sample_ss_client ?ssc (cloud ?v1) (sample_ss_spec ''busy'')
              = (Inr (ss_extension_in ''Creating''), 0)"
    by (simp add: sample_defs)
  have b4: "ss_provisioning (ss_extension_in ''Creating'') = Some ProvisioningStateCreating"
    by (simp add: sample_defs run_defs state_defs)
  note vm = creating_still_provisioning [THEN conjunct1, rule_format, OF a1 a2 a3 a4]
  note ss = creating_still_provisioning [THEN conjunct2, rule_format, OF b1 b2 b3 b4]
  from vm ss a2 a3 a4 b2 b3 b4 show ?thesis
    by (simp add: Let_def emit_def sample_spec_def sample_ss_spec_def sample_scope_def
        sample_ss_scope_def)
qed

subsection \<open>Absent\<close>

text \<open>
  C5. At a spec whose \<open>Get\<close> reports not-found, the VM service issues exactly one
  create-or-update call for it, whose payload carries the spec's publisher, the spec's
  name as the extension type, and the spec's version; the pass ends with the wrapped
  error if the call fails and goes on otherwise. The scale-set service issues no create
  call, in this or any case: it goes on to the next spec.
\<close>

theorem absent_created_once:
  "(VMExtensionSpecs sc = pre @ spec # post \<longrightarrow>
    vmextensions_loop rnf cl sc w0 pre = (Returns None, w1) \<longrightarrow>
    vm_get cl sc (cloud w1) spec = (Inl err, c1) \<longrightarrow>
    rnf err \<longrightarrow>
    vm_create cl sc c1 spec = (r, c2) \<longrightarrow>
    (let W = emit (vm_create_call sc spec) c2 (emit (vm_get_call sc spec) c1 w1) in
     vmextensions_Reconcile rnf cl sc w0 =
       (case r of
          Some err2 \<Rightarrow> (Returns (Some (Wrap (ClientError err2) (create_failed_msg sc spec))), W)
        | None \<Rightarrow> vmextensions_loop rnf cl sc W post)
     \<and> trace W = trace w1 @ [vm_get_call sc spec, vm_create_call sc spec]
     \<and> mutations (trace W) = mutations (trace w1) @ [vm_create_call sc spec]
     \<and> (\<exists>p. Properties (extension_payload sc spec) = Some p
            \<and> Publisher p = Some (spec_Publisher spec)
            \<and> Type p = Some (spec_Name spec)
            \<and> TypeHandlerVersion p = Some (spec_Version spec))))
   \<and>
   (VMSSExtensionSpecs ssc = spre @ sspec # spost \<longrightarrow>
    vmssextensions_loop rnf scl ssc v0 spre = (Returns None, v1) \<longrightarrow>
    ss_get scl ssc (cloud v1) sspec = (Inl serr, d1) \<longrightarrow>
    rnf serr \<longrightarrow>
    (let V = emit (ss_get_call ssc sspec) d1 v1 in
     vmssextensions_Reconcile rnf scl ssc v0 = vmssextensions_loop rnf scl ssc V spost
     \<and> trace V = trace v1 @ [ss_get_call ssc sspec]
     \<and> mutations (trace (snd (vmssextensions_Reconcile rnf scl ssc v0))) = mutations (trace v0)))"
proof (intro conjI impI)
  assume "VMExtensionSpecs sc = pre @ spec # post"
    and "vmextensions_loop rnf cl sc w0 pre = (Returns None, w1)"
    and "vm_get cl sc (cloud w1) spec = (Inl err, c1)"
    and "rnf err"
    and "vm_create cl sc c1 spec = (r, c2)"
  then show "let W = emit (vm_create_call sc spec) c2 (emit (vm_get_call sc spec) c1 w1) in
     vmextensions_Reconcile rnf cl sc w0 =
       (case r of
          Some err2 \<Rightarrow> (Returns (Some (Wrap (ClientError err2) (create_failed_msg sc spec))), W)
        | None \<Rightarrow> vmextensions_loop rnf cl sc W post)
     \<and> trace W = trace w1 @ [vm_get_call sc spec, vm_create_call sc spec]
     \<and> mutations (trace W) = mutations (trace w1) @ [vm_create_call sc spec]
     \<and> (\<exists>p. Properties (extension_payload sc spec) = Some p
            \<and> Publisher p = Some (spec_Publisher spec)
            \<and> Type p = Some (spec_Name spec)
            \<and> TypeHandlerVersion p = Some (spec_Version spec))"
    by (simp add: vmextensions_Reconcile_at vmextensions_body_not_found emit_def mutations_def
        extension_payload_def split: option.splits)
next
  assume "VMSSExtensionSpecs ssc = spre @ sspec # spost"
    and "vmssextensions_loop rnf scl ssc v0 spre = (Returns None, v1)"
    and "ss_get scl ssc (cloud v1) sspec = (Inl serr, d1)"
    and "rnf serr"
  then have "vmssextensions_Reconcile rnf scl ssc v0 =
      vmssextensions_loop rnf scl ssc (emit (ss_get_call ssc sspec) d1 v1) spost"
    by (simp add: vmssextensions_Reconcile_at vmssextensions_body_Inl)
  moreover have "trace (emit (ss_get_call ssc sspec) d1 v1) = trace v1 @ [ss_get_call ssc sspec]"
    by (simp add: emit_def)
  moreover note vmssextensions_Reconcile_mutations [of rnf scl ssc v0]
  ultimately show "let V = emit (ss_get_call ssc sspec) d1 v1 in
     vmssextensions_Reconcile rnf scl ssc v0 = vmssextensions_loop rnf scl ssc V spost
     \<and> trace V = trace v1 @ [ss_get_call ssc sspec]
     \<and> mutations (trace (snd (vmssextensions_Reconcile rnf scl ssc v0))) = mutations (trace v0)"
    unfolding Let_def by (intro conjI)
qed

text \<open>The theorem above at a pass over one absent extension, in each service.\<close>

theorem absent_created_once_witness:
  "vm_get sample_client (sample_scope [''new'']) 0 (sample_spec ''new'') = (Inl 404, 0)
   \<and> http_not_found 404
   \<and> vm_create sample_client (sample_scope [''new'']) 0 (sample_spec ''new'') = (None, 1)
   \<and> vmextensions_Reconcile http_not_found sample_client (sample_scope [''new'']) world0
     = (Returns None,
        \<lparr>cloud = 1,
         trace = [Get_call ''rg'' ''vm'' ''new'',
                  CreateOrUpdate_call ''rg'' ''vm'' ''new''
                    \<lparr>Properties = Some
                       \<lparr>Publisher = Some ''pub'', Type = Some ''new'',
                        TypeHandlerVersion = Some ''1.0'', Settings = None,
                        ProtectedSettings = Some [], ProvisioningState = None\<rparr>,
                     Location = Some ''loc''\<rparr>]\<rparr>)
   \<and> ss_get sample_ss_client (sample_ss_scope [''new'']) 0 (sample_ss_spec ''new'') = (Inl 404, 0)
   \<and> vmssextensions_Reconcile http_not_found sample_ss_client (sample_ss_scope [''new'']) world0
     = (Returns None, \<lparr>cloud = 0, trace = [Get_call ''rg'' ''vmss'' ''new'']\<rparr>)"
proof -
  let ?sc = "sample_scope [''new'']"
  let ?ssc = "sample_ss_scope [''new'']"
  have a1: "VMExtensionSpecs ?sc = [] @ sample_spec ''new'' # []"
    by (simp add: sample_defs)
  have a2: "vmextensions_loop http_not_found sample_client ?sc world0 [] = (Returns None, world0)"
    by simp
  have a3: "vm_get sample_client ?sc (cloud (world0 :: (nat, event) world)) (sample_spec ''new'')
              = (Inl 404, 0)"
    by (simp add: sample_defs)
  have a4: "http_not_found 404"
    by (simp add: http_not_found_def)
  have a5: "vm_create sample_client ?sc 0 (sample_spec ''new'') = (None, 1)"
    by (simp add: sample_defs)
  have b1: "VMSSExtensionSpecs ?ssc = [] @ sample_ss_spec ''new'' # []"
    by (simp add: sample_defs)
  have b2: "vmssextensions_loop http_not_found sample_ss_client ?ssc world0 []
              = (Returns None, world0)"
    by simp
  have b3: "ss_get sample_ss_client ?ssc (cloud (world0 :: (nat, event) world)) (sample_ss_spec ''new'')
              = (Inl 404, 0)"
    by (simp add: sample_defs)
  note vm = absent_created_once [THEN conjunct1, rule_format, OF a1 a2 a3 a4 a5]
  note ss = absent_created_once [THEN conjunct2, rule_format, OF b1 b2 b3 a4]
  from vm ss a3 a4 a5 b3 show ?thesis
    by (simp add: Let_def emit_def world0_def sample_spec_def sample_ss_spec_def sample_scope_def
        sample_ss_scope_def extension_payload_def)
qed

text \<open>
  C5 as it is written asks the scale-set service too for a create call: a pass of the
  scale-set service over one absent extension issues none.
\<close>

theorem absent_create_counterexample:
  "ss_get sample_ss_client (sample_ss_scope [''new'']) (cloud (world0 :: (nat, event) world))
       (sample_ss_spec ''new'') = (Inl 404, 0)
   \<and> http_not_found 404
   \<and> mutations (trace (snd (vmssextensions_Reconcile http_not_found sample_ss_client
          (sample_ss_scope [''new'']) world0))) = []"
  by (simp add: sample_defs run_defs state_defs)

subsection \<open>Delete\<close>

text \<open>
  C9. Delete of both extension services returns nil and leaves the world as it is: no
  call is issued and the provider's state is unchanged.
\<close>

theorem extension_Delete_noop:
  "vmextensions_Delete cl sc w = (Returns None, w)
   \<and> vmssextensions_Delete scl ssc v = (Returns None, v)"
  by (simp add: vmextensions_Delete_def vmssextensions_Delete_def)

subsection \<open>The order of a pass\<close>

text \<open>
  C10. With an empty list of specs, Reconcile of both services returns nil and leaves the
  world as it is. With a spec that is reached and observed in the creating or the failed
  state, or (VM service) that is absent and whose create call fails, the pass returns an
  error, and the specs after it play no part: the pass is equal, in result and in final
  world, to the pass over the scope whose list is cut after that spec. The trace is
  pinned: over the specs before it, each adds its \<open>Get\<close> followed by at most one create of
  its own, in the list's order; the stopping spec adds its \<open>Get\<close> alone (creating,
  failed) or its \<open>Get\<close> and its one failing create. In the scale-set service the calls of
  the pass are the \<open>Get\<close>s of the specs up to the stopping one, in order, and nothing is
  created.
\<close>

theorem pass_stops_at_first_unready:
  "(VMExtensionSpecs sc0 = [] \<longrightarrow> vmextensions_Reconcile rnf cl sc0 w = (Returns None, w))
   \<and>
   (VMSSExtensionSpecs ssc0 = [] \<longrightarrow> vmssextensions_Reconcile rnf scl ssc0 v = (Returns None, v))
   \<and>
   (VMExtensionSpecs sc = pre @ spec # post \<longrightarrow>
    vmextensions_loop rnf cl sc w0 pre = (Returns None, w1) \<longrightarrow>
    ((\<exists>existing c1. vm_get cl sc (cloud w1) spec = (Inr existing, c1)
        \<and> (provisioning existing = Some ProvisioningStateCreating
            \<or> provisioning existing = Some ProvisioningStateFailed))
     \<or> (\<exists>err c1 err2 c2. vm_get cl sc (cloud w1) spec = (Inl err, c1) \<and> rnf err
        \<and> vm_create cl sc c1 spec = (Some err2, c2))) \<longrightarrow>
    (let R = vmextensions_Reconcile rnf cl sc w0 in
     (\<exists>e. fst R = Returns (Some e))
     \<and> vmextensions_body rnf cl sc w1 spec = (Some (fst R), snd R)
     \<and> R = vmextensions_loop rnf cl sc w0 (pre @ [spec])
     \<and> gets (trace (snd R)) = gets (trace w0) @ map (vm_get_call sc) (pre @ [spec])
     \<and> R = vmextensions_Reconcile rnf cl (sc\<lparr>VMExtensionSpecs := pre @ [spec]\<rparr>) w0
     \<and> (\<exists>ks. length ks = length pre
          \<and> trace w1 = trace w0 @ concat (map2
               (\<lambda>s k. if k then [vm_get_call sc s, vm_create_call sc s] else [vm_get_call sc s])
               pre ks))
     \<and> ((\<exists>existing c1. vm_get cl sc (cloud w1) spec = (Inr existing, c1)) \<longrightarrow>
          trace (snd R) = trace w1 @ [vm_get_call sc spec])
     \<and> ((\<exists>err c1. vm_get cl sc (cloud w1) spec = (Inl err, c1)) \<longrightarrow>
          trace (snd R) = trace w1 @ [vm_get_call sc spec, vm_create_call sc spec])))
   \<and>
   (VMSSExtensionSpecs ssc = spre @ sspec # spost \<longrightarrow>
    vmssextensions_loop rnf scl ssc v0 spre = (Returns None, v1) \<longrightarrow>
    (\<exists>sexisting d1. ss_get scl ssc (cloud v1) sspec = (Inr sexisting, d1)
        \<and> (ss_provisioning sexisting = Some ProvisioningStateCreating
            \<or> ss_provisioning sexisting = Some ProvisioningStateFailed)) \<longrightarrow>
    (let R = vmssextensions_Reconcile rnf scl ssc v0 in
     (\<exists>e. fst R = Returns (Some e))
     \<and> vmssextensions_body rnf scl ssc v1 sspec = (Some (fst R), snd R)
     \<and> R = vmssextensions_loop rnf scl ssc v0 (spre @ [sspec])
     \<and> gets (trace (snd R)) = gets (trace v0) @ map (ss_get_call ssc) (spre @ [sspec])
     \<and> R = vmssextensions_Reconcile rnf scl (ssc\<lparr>VMSSExtensionSpecs := spre @ [sspec]\<rparr>) v0
     \<and> mutations (trace (snd R)) = mutations (trace v0)
     \<and> filter (\<lambda>ev. \<not> is_condition ev) (trace (snd R))
         = filter (\<lambda>ev. \<not> is_condition ev) (trace v0) @ map (ss_get_call ssc) (spre @ [sspec])))"
proof (intro conjI impI)
  assume "VMExtensionSpecs sc0 = []"
  then show "vmextensions_Reconcile rnf cl sc0 w = (Returns None, w)"
    by (simp add: vmextensions_Reconcile_def)
next
  assume "VMSSExtensionSpecs ssc0 = []"
  then show "vmssextensions_Reconcile rnf scl ssc0 v = (Returns None, v)"
    by (simp add: vmssextensions_Reconcile_def)
next
  assume specs: "VMExtensionSpecs sc = pre @ spec # post"
    and pre: "vmextensions_loop rnf cl sc w0 pre = (Returns None, w1)"
    and stop: "(\<exists>existing c1. vm_get cl sc (cloud w1) spec = (Inr existing, c1)
        \<and> (provisioning existing = Some ProvisioningStateCreating
            \<or> provisioning existing = Some ProvisioningStateFailed))
     \<or> (\<exists>err c1 err2 c2. vm_get cl sc (cloud w1) spec = (Inl err, c1) \<and> rnf err
        \<and> vm_create cl sc c1 spec = (Some err2, c2))"
  let ?R = "vmextensions_Reconcile rnf cl sc w0"
  from stop obtain e w2 where b: "vmextensions_body rnf cl sc w1 spec = (Some (Returns (Some e)), w2)"
    and t1: "(\<exists>existing c1. vm_get cl sc (cloud w1) spec = (Inr existing, c1)) \<longrightarrow>
          trace w2 = trace w1 @ [vm_get_call sc spec]"
    and t2: "(\<exists>err c1. vm_get cl sc (cloud w1) spec = (Inl err, c1)) \<longrightarrow>
          trace w2 = trace w1 @ [vm_get_call sc spec, vm_create_call sc spec]"
    by (auto simp: vmextensions_body_Inr vmextensions_body_not_found state_defs emit_def)
  from specs pre b have R: "?R = (Returns (Some e), w2)"
    by (simp add: vmextensions_Reconcile_at)
  from pre b have L: "vmextensions_loop rnf cl sc w0 (pre @ [spec]) = (Returns (Some e), w2)"
    by (simp add: vmextensions_loop_append)
  from L have T: "vmextensions_Reconcile rnf cl (sc\<lparr>VMExtensionSpecs := pre @ [spec]\<rparr>) w0
      = (Returns (Some e), w2)"
    by (simp add: vmextensions_Reconcile_def vmextensions_loop_scope)
  from b vmextensions_body_gets [of rnf cl sc w1 spec]
  have "gets (trace w2) = gets (trace w1) @ [vm_get_call sc spec]" by simp
  with vmextensions_loop_gets [OF pre]
  have G: "gets (trace w2) = gets (trace w0) @ map (vm_get_call sc) (pre @ [spec])" by simp
  note K = vmextensions_loop_trace [OF pre]
  have c1: "\<exists>e. fst ?R = Returns (Some e)" using R by simp
  have c2: "vmextensions_body rnf cl sc w1 spec = (Some (fst ?R), snd ?R)" using R b by simp
  have c3: "?R = vmextensions_loop rnf cl sc w0 (pre @ [spec])" using R L by simp
  have c4: "gets (trace (snd ?R)) = gets (trace w0) @ map (vm_get_call sc) (pre @ [spec])"
    using R G by simp
  have c5: "?R = vmextensions_Reconcile rnf cl (sc\<lparr>VMExtensionSpecs := pre @ [spec]\<rparr>) w0"
    using R T by simp
  have c7: "(\<exists>existing c1. vm_get cl sc (cloud w1) spec = (Inr existing, c1)) \<longrightarrow>
          trace (snd ?R) = trace w1 @ [vm_get_call sc spec]"
    using R t1 by simp
  have c8: "(\<exists>err c1. vm_get cl sc (cloud w1) spec = (Inl err, c1)) \<longrightarrow>
          trace (snd ?R) = trace w1 @ [vm_get_call sc spec, vm_create_call sc spec]"
    using R t2 by simp
  show "let R = vmextensions_Reconcile rnf cl sc w0 in
     (\<exists>e. fst R = Returns (Some e))
     \<and> vmextensions_body rnf cl sc w1 spec = (Some (fst R), snd R)
     \<and> R = vmextensions_loop rnf cl sc w0 (pre @ [spec])
     \<and> gets (trace (snd R)) = gets (trace w0) @ map (vm_get_call sc) (pre @ [spec])
     \<and> R = vmextensions_Reconcile rnf cl (sc\<lparr>VMExtensionSpecs := pre @ [spec]\<rparr>) w0
     \<and> (\<exists>ks. length ks = length pre
          \<and> trace w1 = trace w0 @ concat (map2
               (\<lambda>s k. if k then [vm_get_call sc s, vm_create_call sc s] else [vm_get_call sc s])
               pre ks))
     \<and> ((\<exists>existing c1. vm_get cl sc (cloud w1) spec = (Inr existing, c1)) \<longrightarrow>
          trace (snd R) = trace w1 @ [vm_get_call sc spec])
     \<and> ((\<exists>err c1. vm_get cl sc (cloud w1) spec = (Inl err, c1)) \<longrightarrow>
          trace (snd R) = trace w1 @ [vm_get_call sc spec, vm_create_call sc spec])"
    unfolding Let_def by (intro conjI c1 c2 c3 c4 c5 K c7 c8)
next
  assume specs: "VMSSExtensionSpecs ssc = spre @ sspec # spost"
    and pre: "vmssextensions_loop rnf scl ssc v0 spre = (Returns None, v1)"
    and stop: "\<exists>sexisting d1. ss_get scl ssc (cloud v1) sspec = (Inr sexisting, d1)
        \<and> (ss_provisioning sexisting = Some ProvisioningStateCreating
            \<or> ss_provisioning sexisting = Some ProvisioningStateFailed)"
  let ?R = "vmssextensions_Reconcile rnf scl ssc v0"
  from stop obtain e v2 where b: "vmssextensions_body rnf scl ssc v1 sspec = (Some (Returns (Some e)), v2)"
    by (auto simp: vmssextensions_body_Inr state_defs)
  from specs pre b have R: "?R = (Returns (Some e), v2)"
    by (simp add: vmssextensions_Reconcile_at)
  from pre b have L: "vmssextensions_loop rnf scl ssc v0 (spre @ [sspec]) = (Returns (Some e), v2)"
    by (simp add: vmssextensions_loop_append)
  from L have T: "vmssextensions_Reconcile rnf scl (ssc\<lparr>VMSSExtensionSpecs := spre @ [sspec]\<rparr>) v0
      = (Returns (Some e), v2)"
    by (simp add: vmssextensions_Reconcile_def vmssextensions_loop_scope)
  from b vmssextensions_body_gets [of rnf scl ssc v1 sspec]
  have "gets (trace v2) = gets (trace v1) @ [ss_get_call ssc sspec]" by simp
  with vmssextensions_loop_gets [OF pre]
  have G: "gets (trace v2) = gets (trace v0) @ map (ss_get_call ssc) (spre @ [sspec])" by simp
  from b vmssextensions_body_calls [of rnf scl ssc v1 sspec]
  have "filter (\<lambda>ev. \<not> is_condition ev) (trace v2)
      = filter (\<lambda>ev. \<not> is_condition ev) (trace v1) @ [ss_get_call ssc sspec]" by simp
  with vmssextensions_loop_calls [OF pre]
  have C: "filter (\<lambda>ev. \<not> is_condition ev) (trace v2)
      = filter (\<lambda>ev. \<not> is_condition ev) (trace v0) @ map (ss_get_call ssc) (spre @ [sspec])"
    by simp
  have c1: "\<exists>e. fst ?R = Returns (Some e)" using R by simp
  have c2: "vmssextensions_body rnf scl ssc v1 sspec = (Some (fst ?R), snd ?R)" using R b by simp
  have c3: "?R = vmssextensions_loop rnf scl ssc v0 (spre @ [sspec])" using R L by simp
  have c4: "gets (trace (snd ?R)) = gets (trace v0) @ map (ss_get_call ssc) (spre @ [sspec])"
    using R G by simp
  have c5: "?R = vmssextensions_Reconcile rnf scl (ssc\<lparr>VMSSExtensionSpecs := spre @ [sspec]\<rparr>) v0"
    using R T by simp
  note c6 = vmssextensions_Reconcile_mutations [of rnf scl ssc v0]
  have c7: "filter (\<lambda>ev. \<not> is_condition ev) (trace (snd ?R))
         = filter (\<lambda>ev. \<not> is_condition ev) (trace v0) @ map (ss_get_call ssc) (spre @ [sspec])"
    using R C by simp
  show "let R = vmssextensions_Reconcile rnf scl ssc v0 in
     (\<exists>e. fst R = Returns (Some e))
     \<and> vmssextensions_body rnf scl ssc v1 sspec = (Some (fst R), snd R)
     \<and> R = vmssextensions_loop rnf scl ssc v0 (spre @ [sspec])
     \<and> gets (trace (snd R)) = gets (trace v0) @ map (ss_get_call ssc) (spre @ [sspec])
     \<and> R = vmssextensions_Reconcile rnf scl (ssc\<lparr>VMSSExtensionSpecs := spre @ [sspec]\<rparr>) v0
     \<and> mutations (trace (snd R)) = mutations (trace v0)
     \<and> filter (\<lambda>ev. \<not> is_condition ev) (trace (snd R))
         = filter (\<lambda>ev. \<not> is_condition ev) (trace v0) @ map (ss_get_call ssc) (spre @ [sspec])"
    unfolding Let_def by (intro conjI c1 c2 c3 c4 c5 c6 c7)
qed

text \<open>
  The theorem above at the empty list, at a VM pass whose second spec is absent and
  refused by the provider, and at a scale-set pass whose second spec is failed.
\<close>

theorem pass_stops_at_first_unready_witness:
  "vmextensions_Reconcile http_not_found sample_client (sample_scope []) world0 = (Returns None, world0)
   \<and> vmssextensions_Reconcile http_not_found sample_ss_client (sample_ss_scope []) world0
     = (Returns None, world0)
   \<and> vmextensions_loop http_not_found sample_client (sample_scope [''ok'', ''deny'', ''new'']) world0
        [sample_spec ''ok'']
     = (Returns None, \<lparr>cloud = 0, trace = [Get_call ''rg'' ''vm'' ''ok'']\<rparr>)
   \<and> vm_get sample_client (sample_scope [''ok'', ''deny'', ''new'']) 0 (sample_spec ''deny'')
     = (Inl 404, 0)
   \<and> http_not_found 404
   \<and> vm_create sample_client (sample_scope [''ok'', ''deny'', ''new'']) 0 (sample_spec ''deny'')
     = (Some 403, 1)
   \<and> fst (vmextensions_Reconcile http_not_found sample_client
            (sample_scope [''ok'', ''deny'', ''new'']) world0)
     = Returns (Some (Wrap (ClientError 403)
         ''failed to create VM extension deny on VM vm in resource group rg''))
   \<and> gets (trace (snd (vmextensions_Reconcile http_not_found sample_client
            (sample_scope [''ok'', ''deny'', ''new'']) world0)))
     = [Get_call ''rg'' ''vm'' ''ok'', Get_call ''rg'' ''vm'' ''deny'']
   \<and> vmssextensions_loop http_not_found sample_ss_client (sample_ss_scope [''ok'', ''bad'', ''new''])
        world0 [sample_ss_spec ''ok'']
     = (Returns None,
        \<lparr>cloud = 0, trace = [Get_call ''rg'' ''vmss'' ''ok'', set_condition NoReason NoSeverity True]\<rparr>)
   \<and> ss_get sample_ss_client (sample_ss_scope [''ok'', ''bad'', ''new'']) 0 (sample_ss_spec ''bad'')
     = (Inr (ss_extension_in ''Failed''), 0)
   \<and> ss_provisioning (ss_extension_in ''Failed'') = Some ProvisioningStateFailed
   \<and> fst (vmssextensions_Reconcile http_not_found sample_ss_client
            (sample_ss_scope [''ok'', ''bad'', ''new'']) world0)
     = Returns (Some (New ''extension state failed''))
   \<and> gets (trace (snd (vmssextensions_Reconcile http_not_found sample_ss_client
            (sample_ss_scope [''ok'', ''bad'', ''new'']) world0)))
     = [Get_call ''rg'' ''vmss'' ''ok'', Get_call ''rg'' ''vmss'' ''bad'']
   \<and> trace (snd (vmextensions_Reconcile http_not_found sample_client
            (sample_scope [''ok'', ''deny'', ''new'']) world0))
     = [Get_call ''rg'' ''vm'' ''ok'', Get_call ''rg'' ''vm'' ''deny'',
        CreateOrUpdate_call ''rg'' ''vm'' ''deny''
          \<lparr>Properties = Some
             \<lparr>Publisher = Some ''pub'', Type = Some ''deny'',
              TypeHandlerVersion = Some ''1.0'', Settings = None,
              ProtectedSettings = Some [], ProvisioningState = None\<rparr>,
           Location = Some ''loc''\<rparr>]
   \<and> vmextensions_Reconcile http_not_found sample_client
        (sample_scope [''ok'', ''deny'', ''new'']) world0
     = vmextensions_Reconcile http_not_found sample_client (sample_scope [''ok'', ''deny'']) world0
   \<and> mutations (trace (snd (vmssextensions_Reconcile http_not_found sample_ss_client
            (sample_ss_scope [''ok'', ''bad'', ''new'']) world0))) = []
   \<and> vmssextensions_Reconcile http_not_found sample_ss_client
        (sample_ss_scope [''ok'', ''bad'', ''new'']) world0
     = vmssextensions_Reconcile http_not_found sample_ss_client (sample_ss_scope [''ok'', ''bad'']) world0"
proof -
  let ?sc = "sample_scope [''ok'', ''deny'', ''new'']"
  let ?ssc = "sample_ss_scope [''ok'', ''bad'', ''new'']"
  let ?w1 = "\<lparr>cloud = 0::nat, trace = [Get_call ''rg'' ''vm'' ''ok'']\<rparr>"
  let ?v1 = "\<lparr>cloud = 0::nat,
              trace = [Get_call ''rg'' ''vmss'' ''ok'', set_condition NoReason NoSeverity True]\<rparr>"
  have e1: "VMExtensionSpecs (sample_scope []) = []"
    by (simp add: sample_defs)
  have e2: "VMSSExtensionSpecs (sample_ss_scope []) = []"
    by (simp add: sample_defs)
  have a1: "VMExtensionSpecs ?sc = [sample_spec ''ok''] @ sample_spec ''deny'' # [sample_spec ''new'']"
    by (simp add: sample_defs)
  have a2: "vmextensions_loop http_not_found sample_client ?sc world0 [sample_spec ''ok'']
              = (Returns None, ?w1)"
    by (simp add: sample_defs run_defs state_defs)
  have a3: "vm_get sample_client ?sc (cloud ?w1) (sample_spec ''deny'') = (Inl 404, 0)"
    by (simp add: sample_defs)
  have a4: "http_not_found 404"
    by (simp add: http_not_found_def)
  have a5: "vm_create sample_client ?sc 0 (sample_spec ''deny'') = (Some 403, 1)"
    by (simp add: sample_defs)
  from a3 a4 a5
  have a6: "(\<exists>existing c1. vm_get sample_client ?sc (cloud ?w1) (sample_spec ''deny'') = (Inr existing, c1)
        \<and> (provisioning existing = Some ProvisioningStateCreating
            \<or> provisioning existing = Some ProvisioningStateFailed))
     \<or> (\<exists>err c1 err2 c2. vm_get sample_client ?sc (cloud ?w1) (sample_spec ''deny'') = (Inl err, c1)
        \<and> http_not_found err
        \<and> vm_create sample_client ?sc c1 (sample_spec ''deny'') = (Some err2, c2))"
    by blast
  have b1: "VMSSExtensionSpecs ?ssc
              = [sample_ss_spec ''ok''] @ sample_ss_spec ''bad'' # [sample_ss_spec ''new'']"
    by (simp add: sample_defs)
  have b2: "vmssextensions_loop http_not_found sample_ss_client ?ssc world0 [sample_ss_spec ''ok'']
              = (Returns None, ?v1)"
    by (simp add: sample_defs run_defs state_defs)
  have b3: "ss_get sample_ss_client ?ssc (cloud ?v1) (sample_ss_spec ''bad'')
              = (Inr (ss_extension_in ''Failed''), 0)"
    by (simp add: sample_defs)
  have b4: "ss_provisioning (ss_extension_in ''Failed'') = Some ProvisioningStateFailed"
    by (simp add: sample_defs run_defs state_defs)
  from b3 b4
  have b5: "\<exists>sexisting d1. ss_get sample_ss_client ?ssc (cloud ?v1) (sample_ss_spec ''bad'')
          = (Inr sexisting, d1)
        \<and> (ss_provisioning sexisting = Some ProvisioningStateCreating
            \<or> ss_provisioning sexisting = Some ProvisioningStateFailed)"
    by blast
  note t = pass_stops_at_first_unready
  note vm0 = t [THEN conjunct1, rule_format, OF e1,
      of http_not_found sample_client "world0 :: (nat, event) world"]
  note ss0 = t [THEN conjunct2, THEN conjunct1, rule_format, OF e2,
      of http_not_found sample_ss_client "world0 :: (nat, event) world"]
  note vm = t [THEN conjunct2, THEN conjunct2, THEN conjunct1, rule_format, OF a1 a2 a6]
  note ss = t [THEN conjunct2, THEN conjunct2, THEN conjunct2, rule_format, OF b1 b2 b5]
  let ?R = "vmextensions_Reconcile http_not_found sample_client ?sc world0"
  let ?S = "vmssextensions_Reconcile http_not_found sample_ss_client ?ssc world0"
  have vmb: "vmextensions_body http_not_found sample_client ?sc ?w1 (sample_spec ''deny'')
     = (Some (Returns (Some (Wrap (ClientError 403)
           ''failed to create VM extension deny on VM vm in resource group rg''))),
        \<lparr>cloud = 1, trace = [Get_call ''rg'' ''vm'' ''ok'', Get_call ''rg'' ''vm'' ''deny'',
           vm_create_call ?sc (sample_spec ''deny'')]\<rparr>)"
    by (simp add: sample_defs run_defs)
  have ssb: "vmssextensions_body http_not_found sample_ss_client ?ssc ?v1 (sample_ss_spec ''bad'')
     = (Some (Returns (Some (New ''extension state failed''))),
        \<lparr>cloud = 0, trace = [Get_call ''rg'' ''vmss'' ''ok'', set_condition NoReason NoSeverity True,
           Get_call ''rg'' ''vmss'' ''bad'',
           set_condition BootstrapFailedReason ConditionSeverityError False]\<rparr>)"
    by (simp add: sample_defs run_defs state_defs)
  from vm have "vmextensions_body http_not_found sample_client ?sc ?w1 (sample_spec ''deny'')
      = (Some (fst ?R), snd ?R)"
    unfolding Let_def by blast
  then have vmr: "fst ?R = Returns (Some (Wrap (ClientError 403)
         ''failed to create VM extension deny on VM vm in resource group rg''))"
    unfolding vmb by simp
  from vm have "gets (trace (snd ?R))
      = gets (trace world0) @ map (vm_get_call ?sc) ([sample_spec ''ok''] @ [sample_spec ''deny''])"
    unfolding Let_def by blast
  then have vmg: "gets (trace (snd ?R)) = [Get_call ''rg'' ''vm'' ''ok'', Get_call ''rg'' ''vm'' ''deny'']"
    by (simp add: world0_def gets_def sample_scope_def sample_spec_def)
  from ss have "vmssextensions_body http_not_found sample_ss_client ?ssc ?v1 (sample_ss_spec ''bad'')
      = (Some (fst ?S), snd ?S)"
    unfolding Let_def by blast
  then have ssr: "fst ?S = Returns (Some (New ''extension state failed''))"
    unfolding ssb by simp
  from ss have "gets (trace (snd ?S))
      = gets (trace world0) @ map (ss_get_call ?ssc) ([sample_ss_spec ''ok''] @ [sample_ss_spec ''bad''])"
    unfolding Let_def by blast
  then have ssg: "gets (trace (snd ?S)) = [Get_call ''rg'' ''vmss'' ''ok'', Get_call ''rg'' ''vmss'' ''bad'']"
    by (simp add: world0_def gets_def sample_ss_scope_def sample_ss_spec_def)
  from a3 b3 have a3': "vm_get sample_client ?sc 0 (sample_spec ''deny'') = (Inl 404, 0)"
    and b3': "ss_get sample_ss_client ?ssc 0 (sample_ss_spec ''bad'')
                = (Inr (ss_extension_in ''Failed''), 0)"
    by simp_all
  from a3 have "\<exists>err c1. vm_get sample_client ?sc (cloud ?w1) (sample_spec ''deny'') = (Inl err, c1)"
    by blast
  with vm have "trace (snd ?R)
      = trace ?w1 @ [vm_get_call ?sc (sample_spec ''deny''), vm_create_call ?sc (sample_spec ''deny'')]"
    unfolding Let_def by blast
  then have vmt: "trace (snd ?R)
     = [Get_call ''rg'' ''vm'' ''ok'', Get_call ''rg'' ''vm'' ''deny'',
        CreateOrUpdate_call ''rg'' ''vm'' ''deny''
          \<lparr>Properties = Some
             \<lparr>Publisher = Some ''pub'', Type = Some ''deny'',
              TypeHandlerVersion = Some ''1.0'', Settings = None,
              ProtectedSettings = Some [], ProvisioningState = None\<rparr>,
           Location = Some ''loc''\<rparr>]"
    by (simp add: sample_scope_def sample_spec_def extension_payload_def)
  from vm have "?R = vmextensions_Reconcile http_not_found sample_client
      (?sc\<lparr>VMExtensionSpecs := [sample_spec ''ok''] @ [sample_spec ''deny'']\<rparr>) world0"
    unfolding Let_def by blast
  then have vmc: "?R = vmextensions_Reconcile http_not_found sample_client
      (sample_scope [''ok'', ''deny'']) world0"
    by (simp add: sample_scope_def)
  from ss have "mutations (trace (snd ?S)) = mutations (trace (world0 :: (nat, event) world))"
    unfolding Let_def by blast
  then have ssm: "mutations (trace (snd ?S)) = []"
    by (simp add: world0_def mutations_def)
  from ss have "?S = vmssextensions_Reconcile http_not_found sample_ss_client
      (?ssc\<lparr>VMSSExtensionSpecs := [sample_ss_spec ''ok''] @ [sample_ss_spec ''bad'']\<rparr>) world0"
    unfolding Let_def by blast
  then have ssc: "?S = vmssextensions_Reconcile http_not_found sample_ss_client
      (sample_ss_scope [''ok'', ''bad'']) world0"
    by (simp add: sample_ss_scope_def)
  show ?thesis
    by (intro conjI vm0 ss0 a2 a3' a4 a5 vmr vmg b2 b3' b4 ssr ssg vmt vmc ssm ssc)
qed

section \<open>The public IP service\<close>

text \<open>On a string of ASCII bytes, \<open>ToLower\<close> keeps the length and leaves no upper-case letter.\<close>

lemma ToLower_ascii:
  assumes "list_all isASCII s"
  shows "length (ToLower unicode_lower s) = length s"
    and "list_all (\<lambda>c. \<not> isUpper c) (ToLower unicode_lower s)"
proof -
  show "length (ToLower unicode_lower s) = length s"
    using assms by (simp add: ToLower_def)
  have "\<not> isUpper (lower_byte c)" for c
    by (simp add: lower_byte_def isUpper_def of_char_of)
  then show "list_all (\<lambda>c. \<not> isUpper c) (ToLower unicode_lower s)"
    using assms by (simp add: ToLower_def list_all_iff)
qed

text \<open>
  C6. When the provider's delete call reports not-found, Delete returns nil: deleting a
  public IP that is already absent is not an error.
\<close>

theorem publicips_Delete_not_found:
  "pip_Delete cl (cloud w) (pip_ResourceGroup sc) (ip_Name (APIServerIP (Network sc))) = (Some err, c1)
   \<Longrightarrow> rnf err
   \<Longrightarrow> publicips_Delete rnf cl sc w
       = (Returns None,
          emit (PIP_Delete_call (pip_ResourceGroup sc) (ip_Name (APIServerIP (Network sc)))) c1 w)"
  by (simp add: publicips_Delete_def)

text \<open>The theorem above at a public IP the provider reports as not found.\<close>

theorem publicips_Delete_not_found_witness:
  "pip_Delete sample_pip_client 0 ''rg'' ''gone'' = (Some 404, 1)
   \<and> http_not_found 404
   \<and> publicips_Delete http_not_found sample_pip_client (sample_pip_scope ''gone'') world0
       = (Returns None, \<lparr>cloud = 1, trace = [PIP_Delete_call ''rg'' ''gone'']\<rparr>)"
proof -
  have a1: "pip_Delete sample_pip_client (cloud (world0 :: (nat, pip_event) world))
      (pip_ResourceGroup (sample_pip_scope ''gone''))
      (ip_Name (APIServerIP (Network (sample_pip_scope ''gone'')))) = (Some 404, 1)"
    by (simp add: sample_defs)
  have a2: "http_not_found 404"
    by (simp add: http_not_found_def)
  from publicips_Delete_not_found [where rnf = http_not_found, OF a1 a2] a1 a2 show ?thesis
    by (simp add: emit_def world0_def sample_pip_scope_def)
qed

text \<open>
  C7. Reconcile adds exactly one call to the trace, a create-or-update for the scope's
  resource group and IP name, whose payload has SKU Standard, allocation method Static,
  IP version IPv4 and \<open>ToLower\<close> of the IP name as DNS domain-name label. For a name of
  ASCII bytes the label is the name with every byte from 65 to 90 (A to Z) raised by 32
  and every other byte kept, so it has no upper-case letter; for a name with a byte from
  128 on it is what the library's Unicode mapping (the parameter) returns for the name.
\<close>

theorem publicips_Reconcile_call:
  "trace (snd (publicips_Reconcile unicode_lower cl sc w))
     = trace w @ [PIP_CreateOrUpdate_call (pip_ResourceGroup sc) (ip_Name (APIServerIP (Network sc)))
                    (publicip_payload unicode_lower sc)]
   \<and> Sku (publicip_payload unicode_lower sc) = Some \<lparr>sku_Name = PublicIPAddressSkuNameStandard\<rparr>
   \<and> (\<exists>p d. pip_Properties (publicip_payload unicode_lower sc) = Some p
        \<and> PublicIPAllocationMethod p = Static
        \<and> PublicIPAddressVersion p = IPv4
        \<and> DNSSettings p = Some d
        \<and> DomainNameLabel d = Some (ToLower unicode_lower (ip_Name (APIServerIP (Network sc))))
        \<and> (list_all (\<lambda>c. (of_char c :: nat) < 128) (ip_Name (APIServerIP (Network sc))) \<longrightarrow>
             DomainNameLabel d = Some (map
               (\<lambda>c. if 65 \<le> (of_char c :: nat) \<and> (of_char c :: nat) \<le> 90
                    then char_of ((of_char c :: nat) + 32) else c)
               (ip_Name (APIServerIP (Network sc))))
             \<and> list_all (\<lambda>c. \<not> (65 \<le> (of_char c :: nat) \<and> (of_char c :: nat) \<le> 90))
                 (the (DomainNameLabel d)))
        \<and> (\<not> list_all (\<lambda>c. (of_char c :: nat) < 128) (ip_Name (APIServerIP (Network sc))) \<longrightarrow>
             DomainNameLabel d = Some (unicode_lower (ip_Name (APIServerIP (Network sc))))))"
proof -
  let ?name = "ip_Name (APIServerIP (Network sc))"
  have A: "isASCII = (\<lambda>c. (of_char c :: nat) < 128)"
    by (simp add: fun_eq_iff isASCII_def)
  have B: "lower_byte = (\<lambda>c. if 65 \<le> (of_char c :: nat) \<and> (of_char c :: nat) \<le> 90
                             then char_of ((of_char c :: nat) + 32) else c)"
    by (simp add: fun_eq_iff lower_byte_def isUpper_def)
  have C: "isUpper = (\<lambda>c. 65 \<le> (of_char c :: nat) \<and> (of_char c :: nat) \<le> 90)"
    by (simp add: fun_eq_iff isUpper_def)
  have ascii: "list_all (\<lambda>c. (of_char c :: nat) < 128) ?name \<Longrightarrow>
      ToLower unicode_lower ?name = map
        (\<lambda>c. if 65 \<le> (of_char c :: nat) \<and> (of_char c :: nat) \<le> 90
             then char_of ((of_char c :: nat) + 32) else c) ?name"
    by (simp add: ToLower_def A B)
  have low: "list_all (\<lambda>c. (of_char c :: nat) < 128) ?name \<Longrightarrow>
      list_all (\<lambda>c. \<not> (65 \<le> (of_char c :: nat) \<and> (of_char c :: nat) \<le> 90))
        (ToLower unicode_lower ?name)"
    using ToLower_ascii(2) [of ?name unicode_lower] by (simp add: A C)
  have other: "\<not> list_all (\<lambda>c. (of_char c :: nat) < 128) ?name \<Longrightarrow>
      ToLower unicode_lower ?name = unicode_lower ?name"
    by (simp add: ToLower_def A)
  have t: "trace (snd (publicips_Reconcile unicode_lower cl sc w))
     = trace w @ [PIP_CreateOrUpdate_call (pip_ResourceGroup sc) ?name
                    (publicip_payload unicode_lower sc)]"
    by (simp add: publicips_Reconcile_def emit_def Let_def split: prod.splits option.splits)
  have s: "Sku (publicip_payload unicode_lower sc) = Some \<lparr>sku_Name = PublicIPAddressSkuNameStandard\<rparr>"
    by (simp add: publicip_payload_def Let_def)
  from ascii low other show ?thesis
    by (intro conjI t s) (simp add: publicip_payload_def Let_def)
qed

text \<open>
  The theorem above at the name \<open>MyIP-1\<close>, whose label is \<open>myip-1\<close>, and at a name
  with non-ASCII bytes, whose label is what the Unicode mapping returns.
\<close>

theorem publicips_Reconcile_call_witness:
  "list_all (\<lambda>c. (of_char c :: nat) < 128) ''MyIP-1''
   \<and> (\<exists>p d. trace (snd (publicips_Reconcile (\<lambda>s. s) sample_pip_client
                 (sample_pip_scope ''MyIP-1'') world0))
          = [PIP_CreateOrUpdate_call ''rg'' ''MyIP-1''
               (publicip_payload (\<lambda>s. s) (sample_pip_scope ''MyIP-1''))]
        \<and> pip_Properties (publicip_payload (\<lambda>s. s) (sample_pip_scope ''MyIP-1'')) = Some p
        \<and> PublicIPAllocationMethod p = Static
        \<and> PublicIPAddressVersion p = IPv4
        \<and> DNSSettings p = Some d
        \<and> DomainNameLabel d = Some ''myip-1'')
   \<and> \<not> list_all (\<lambda>c. (of_char c :: nat) < 128) [CHR 0xC3, CHR 0x89]
   \<and> (\<exists>p d. pip_Properties (publicip_payload (\<lambda>s. [CHR 0xC3, CHR 0xA9])
                 (sample_pip_scope [CHR 0xC3, CHR 0x89])) = Some p
        \<and> DNSSettings p = Some d
        \<and> DomainNameLabel d = Some [CHR 0xC3, CHR 0xA9])"
proof -
  let ?sc = "sample_pip_scope ''MyIP-1''"
  let ?sc2 = "sample_pip_scope [CHR 0xC3, CHR 0x89]"
  have n: "ip_Name (APIServerIP (Network ?sc)) = ''MyIP-1''"
    and n2: "ip_Name (APIServerIP (Network ?sc2)) = [CHR 0xC3, CHR 0x89]"
    and g: "pip_ResourceGroup ?sc = ''rg''"
    by (simp_all add: sample_pip_scope_def)
  have a: "list_all (\<lambda>c. (of_char c :: nat) < 128) ''MyIP-1''"
    by simp
  have b: "\<not> list_all (\<lambda>c. (of_char c :: nat) < 128) [CHR 0xC3, CHR 0x89]"
    by simp
  have m: "map (\<lambda>c. if 65 \<le> (of_char c :: nat) \<and> (of_char c :: nat) \<le> 90
                    then char_of ((of_char c :: nat) + 32) else c) ''MyIP-1'' = ''myip-1''"
    by code_simp
  note t1 = publicips_Reconcile_call [of "\<lambda>s. s" sample_pip_client ?sc world0, unfolded n g]
  note t2 = publicips_Reconcile_call [of "\<lambda>s. [CHR 0xC3, CHR 0xA9]" sample_pip_client ?sc2 world0,
      unfolded n2]
  from t1 a m have c1: "\<exists>p d. trace (snd (publicips_Reconcile (\<lambda>s. s) sample_pip_client ?sc world0))
          = [PIP_CreateOrUpdate_call ''rg'' ''MyIP-1'' (publicip_payload (\<lambda>s. s) ?sc)]
        \<and> pip_Properties (publicip_payload (\<lambda>s. s) ?sc) = Some p
        \<and> PublicIPAllocationMethod p = Static
        \<and> PublicIPAddressVersion p = IPv4
        \<and> DNSSettings p = Some d
        \<and> DomainNameLabel d = Some ''myip-1''"
    by (auto simp: world0_def)
  from t2 b have c2: "\<exists>p d. pip_Properties (publicip_payload (\<lambda>s. [CHR 0xC3, CHR 0xA9]) ?sc2) = Some p
        \<and> DNSSettings p = Some d
        \<and> DomainNameLabel d = Some [CHR 0xC3, CHR 0xA9]"
    by auto
  from a c1 b c2 show ?thesis by (intro conjI)
qed

text \<open>
  C8. Reconcile returns the error of the create-or-update call wrapped with
  "cannot create public IP", and nil when the call returns nil: it returns an error
  exactly when the call does.
\<close>

theorem publicips_Reconcile_error:
  "fst (publicips_Reconcile unicode_lower cl sc w)
     = Returns (map_option (\<lambda>err. Wrap (ClientError err) ''cannot create public IP'')
         (fst (pip_CreateOrUpdate cl (cloud w) (pip_ResourceGroup sc)
                 (ip_Name (APIServerIP (Network sc))) (publicip_payload unicode_lower sc))))
   \<and> ((fst (publicips_Reconcile unicode_lower cl sc w) = Returns None)
        = (fst (pip_CreateOrUpdate cl (cloud w) (pip_ResourceGroup sc)
                 (ip_Name (APIServerIP (Network sc))) (publicip_payload unicode_lower sc)) = None))"
  by (simp add: publicips_Reconcile_def Let_def split: prod.splits option.splits)

end
